theory Spec2Isabelle
  imports Main
begin

section \<open>The build orchestration pipeline of image-builder\<close>

text \<open>
  This theory embeds the orchestration code of \<^verbatim>\<open>cmd/image-builder/main.go\<close>:
  \<^verbatim>\<open>outputNameFor\<close>, \<^verbatim>\<open>ostreeImageOptions\<close>, \<^verbatim>\<open>cmdManifestWrapper\<close>,
  \<^verbatim>\<open>cmdManifest\<close>, \<^verbatim>\<open>progressFromCmd\<close> and \<^verbatim>\<open>cmdBuild\<close>.

  The functions these call but that live in other files (\<^verbatim>\<open>uploaderFor\<close>, \<^verbatim>\<open>getOneImage\<close>,
  \<^verbatim>\<open>generateManifest\<close>, \<^verbatim>\<open>buildImage\<close>, \<^verbatim>\<open>findDistro\<close>, the upload helpers) or in other
  modules (\<^verbatim>\<open>progress.New\<close>, \<^verbatim>\<open>blueprintload.Load\<close>, \<^verbatim>\<open>arch.Current\<close>, \<^verbatim>\<open>filepath.Join\<close>)
  are parameters of the model, collected in the record \<open>env\<close>. Every call to one of them,
  and every call of a method of the progress bar, is written to a trace in the order in
  which the code makes it, so that ordering properties are properties of the trace.

  Where a property depends on what \<^verbatim>\<open>uploaderFor\<close> answers for given flags, the resolver is
  the one the specification describes (\<open>uploaderFor_spec\<close> below).

  A command returns an error or a value. The panic of \<^verbatim>\<open>args[0]\<close> on an empty argument
  list is an error value too; the deferred \<^verbatim>\<open>pbar.Stop\<close> runs after it as after any return.

  Not modelled: the goroutine of \<^verbatim>\<open>cmdBuild\<close> that waits for a signal and stops the
  progress bar (it runs concurrently and calls nothing but \<^verbatim>\<open>pbar.Stop\<close>).
\<close>

subsection \<open>Command-line flags\<close>

text \<open>
  A pflag flag set maps flag names to typed values. \<^verbatim>\<open>GetString\<close>, \<^verbatim>\<open>GetBool\<close> and
  \<^verbatim>\<open>GetStringArray\<close> return an error when the flag is not defined or has another type.
\<close>

datatype flagval = FString string | FBool bool | FStringArray "string list"

type_synonym FlagSet = "string \<rightharpoonup> flagval"

subsection \<open>Data passed between the stages\<close>

text \<open>\<^verbatim>\<open>imagefilter.Result\<close>, read through \<^verbatim>\<open>Distro.Name()\<close>, \<^verbatim>\<open>ImgType.Name()\<close>,
  \<^verbatim>\<open>Arch.Name()\<close> and \<^verbatim>\<open>ImgType.Filename()\<close>.\<close>

record Result =
  Distro_Name :: string
  ImgType_Name :: string
  Arch_Name :: string
  ImgType_Filename :: string

record Blueprint =
  bp_Distro :: string

record ostree_ImageOptions =
  ImageRef :: string
  ParentRef :: string
  URL :: string

text \<open>\<^verbatim>\<open>osbuild.RpmDownloader\<close>: its zero value, or \<^verbatim>\<open>RpmDownloaderLibrepo\<close>.\<close>

datatype RpmDownloader = RpmDownloaderDefault | RpmDownloaderLibrepo

record repoOptions =
  ro_DataDir :: string
  ro_ExtraRepos :: "string list"
  ro_ForceRepos :: "string list"

record manifestOptions =
  mo_OutputDir :: string
  mo_BlueprintPath :: string
  mo_Ostree :: "ostree_ImageOptions option"
  mo_RpmDownloader :: RpmDownloader
  mo_WithSBOM :: bool
  mo_ForceRepos :: "string list"

record buildOptions =
  bo_OutputDir :: string
  bo_StoreDir :: string
  bo_WriteManifest :: bool

text \<open>The sink the manifest is written to: \<^verbatim>\<open>osStdout\<close> or the buffer \<^verbatim>\<open>mf\<close> of \<^verbatim>\<open>cmdBuild\<close>.\<close>

datatype writer = osStdout | Buffer

datatype ProgressBar = ProgressBar string

datatype Uploader = Uploader string

subsection \<open>Errors\<close>

text \<open>
  The error \<^verbatim>\<open>uploaderFor\<close> returns, by the kinds \<^verbatim>\<open>cmdBuild\<close> tells apart with
  \<^verbatim>\<open>errors.As\<close>: a \<^verbatim>\<open>*MissingUploadConfigError\<close> (with its field \<^verbatim>\<open>allMissing\<close>), a
  \<^verbatim>\<open>*UploadTypeUnsupportedError\<close>, or any other error.
\<close>

datatype UploaderForError =
    MissingUploadConfigError (allMissing: bool) "string list"
  | UploadTypeUnsupportedError string
  | OtherUploaderError string

fun As_MissingUploadConfigError :: "UploaderForError \<Rightarrow> bool" where
  "As_MissingUploadConfigError (MissingUploadConfigError a ms) = True"
| "As_MissingUploadConfigError _ = False"

fun As_UploadTypeUnsupportedError :: "UploaderForError \<Rightarrow> bool" where
  "As_UploadTypeUnsupportedError (UploadTypeUnsupportedError t) = True"
| "As_UploadTypeUnsupportedError _ = False"

text \<open>
  The errors a command returns, by the place that returns them. \<open>ArchMismatch a h\<close> is
  \<^verbatim>\<open>cannot build for arch a from h\<close>; \<open>PartialUploadConfig e\<close> is
  \<^verbatim>\<open>partial upload config provided: e\<close>; \<open>IndexOutOfRange\<close> is the panic of \<^verbatim>\<open>args[0]\<close>
  on an empty argument list.
\<close>

datatype error =
    FlagError string
  | IndexOutOfRange
  | ProgressError string
  | BlueprintError string
  | DistroError string
  | ImageError string
  | ArchMismatch string string
  | ManifestError string
  | UploaderError UploaderForError
  | PartialUploadConfig UploaderForError
  | CloudAccessError string
  | BuildError string
  | UploadError string

subsection \<open>The trace of calls\<close>

datatype event =
    ProgressNew string
  | PbarStart
  | PbarStop
  | SetPulseMsgf string
  | SetMessagef string
  | BlueprintLoad string
  | FindDistro string string
  | GetOneImage string string string repoOptions
  | GenerateManifest string "string list" Result writer manifestOptions
  | UploaderFor string
  | UploaderCheck Uploader
  | BuildImage Result string buildOptions
  | UploadImage Uploader string

text \<open>A computation returns an error or a value, and the calls it made, in order.\<close>

type_synonym 'a io = "(error + 'a) \<times> event list"

definition returnM :: "'a \<Rightarrow> 'a io" where
  "returnM x = (Inr x, [])"

definition failM :: "error \<Rightarrow> 'a io" where
  "failM e = (Inl e, [])"

definition emitM :: "event \<Rightarrow> unit io" where
  "emitM ev = (Inr (), [ev])"

text \<open>Sequencing: an error of the first part is returned at once (\<^verbatim>\<open>if err != nil { return err }\<close>).\<close>

definition bindM :: "'a io \<Rightarrow> ('a \<Rightarrow> 'b io) \<Rightarrow> 'b io" where
  "bindM m f =
     (case m of
        (Inl e, tr) \<Rightarrow> (Inl e, tr)
      | (Inr x, tr) \<Rightarrow> (case f x of (r, tr') \<Rightarrow> (r, tr @ tr')))"

text \<open>Go's \<^verbatim>\<open>defer\<close>: the deferred call runs when the body returns, whatever it returns.\<close>

definition deferM :: "event \<Rightarrow> 'a io \<Rightarrow> 'a io" where
  "deferM ev body = (case body of (r, tr) \<Rightarrow> (r, tr @ [ev]))"

definition liftE :: "(string \<Rightarrow> error) \<Rightarrow> string + 'a \<Rightarrow> 'a io" where
  "liftE mk r = (case r of Inl msg \<Rightarrow> failM (mk msg) | Inr x \<Rightarrow> returnM x)"

definition liftO :: "(string \<Rightarrow> error) \<Rightarrow> string option \<Rightarrow> unit io" where
  "liftO mk r = (case r of Some msg \<Rightarrow> failM (mk msg) | None \<Rightarrow> returnM ())"

definition GetString :: "FlagSet \<Rightarrow> string \<Rightarrow> string io" where
  "GetString fs name =
     (case fs name of Some (FString s) \<Rightarrow> returnM s | _ \<Rightarrow> failM (FlagError name))"

definition GetBool :: "FlagSet \<Rightarrow> string \<Rightarrow> bool io" where
  "GetBool fs name =
     (case fs name of Some (FBool b) \<Rightarrow> returnM b | _ \<Rightarrow> failM (FlagError name))"

definition GetStringArray :: "FlagSet \<Rightarrow> string \<Rightarrow> string list io" where
  "GetStringArray fs name =
     (case fs name of Some (FStringArray xs) \<Rightarrow> returnM xs | _ \<Rightarrow> failM (FlagError name))"

subsection \<open>The collaborators\<close>

text \<open>
  Each collaborator is a function of its arguments: an error message or a value. The
  result of \<^verbatim>\<open>uploaderFor\<close> is the pair Go returns, an uploader (or nil) and an error
  (or nil).
\<close>

record env =
  arch_Current :: string
  progress_New :: "string \<Rightarrow> string + ProgressBar"
  blueprintload_Load :: "string \<Rightarrow> string + Blueprint"
  findDistro :: "string \<Rightarrow> string \<Rightarrow> string + string"
  getOneImage :: "string \<Rightarrow> string \<Rightarrow> string \<Rightarrow> repoOptions \<Rightarrow> string + Result"
  generateManifest ::
    "string \<Rightarrow> string list \<Rightarrow> Result \<Rightarrow> writer \<Rightarrow> manifestOptions \<Rightarrow> string + string"
  uploaderFor :: "FlagSet \<Rightarrow> string \<Rightarrow> Uploader option \<times> UploaderForError option"
  uploaderCheckWithProgress :: "Uploader \<Rightarrow> string option"
  buildImage :: "Result \<Rightarrow> string \<Rightarrow> buildOptions \<Rightarrow> string option"
  uploadImageWithProgress :: "Uploader \<Rightarrow> string \<Rightarrow> string option"
  filepath_Join :: "string list \<Rightarrow> string"

subsection \<open>The code\<close>

definition outputNameFor :: "Result \<Rightarrow> string" where
  "outputNameFor img = Distro_Name img @ ''-'' @ ImgType_Name img @ ''-'' @ Arch_Name img"

definition ostreeImageOptions :: "FlagSet \<Rightarrow> ostree_ImageOptions option io" where
  "ostreeImageOptions cmd =
     bindM (GetString cmd ''ostree-ref'') (\<lambda>imageRef.
     bindM (GetString cmd ''ostree-parent'') (\<lambda>parentRef.
     bindM (GetString cmd ''ostree-url'') (\<lambda>url.
     if imageRef = [] \<and> parentRef = [] \<and> url = [] then returnM None
     else returnM (Some \<lparr>ImageRef = imageRef, ParentRef = parentRef, URL = url\<rparr>))))"

text \<open>\<^verbatim>\<open>args[0]\<close>: a panic when there is no argument.\<close>

definition args0 :: "string list \<Rightarrow> string io" where
  "args0 args = (case args of [] \<Rightarrow> failM IndexOutOfRange | a # _ \<Rightarrow> returnM a)"

definition cmdManifestWrapper ::
  "env \<Rightarrow> ProgressBar \<Rightarrow> FlagSet \<Rightarrow> string list \<Rightarrow> writer \<Rightarrow> (string \<Rightarrow> error option) option
     \<Rightarrow> (Result \<times> string) io" where
  "cmdManifestWrapper env pbar cmd args w archChecker =
     bindM (GetString cmd ''datadir'') (\<lambda>dataDir.
     bindM (GetStringArray cmd ''extra-repo'') (\<lambda>extraRepos.
     bindM (GetStringArray cmd ''force-repo'') (\<lambda>forceRepos.
     bindM (GetString cmd ''arch'') (\<lambda>archFlag.
     bindM (returnM (if archFlag = [] then arch_Current env else archFlag)) (\<lambda>archStr.
     bindM (GetString cmd ''distro'') (\<lambda>distroFlag.
     bindM (GetBool cmd ''with-sbom'') (\<lambda>withSBOM.
     bindM (GetString cmd ''output-dir'') (\<lambda>outputDir.
     bindM (ostreeImageOptions cmd) (\<lambda>ostreeImgOpts.
     bindM (GetBool cmd ''use-librepo'') (\<lambda>useLibrepo.
     bindM (returnM (if useLibrepo then RpmDownloaderLibrepo else RpmDownloaderDefault))
       (\<lambda>rpmDownloader.
     bindM (GetString cmd ''blueprint'') (\<lambda>blueprintPath.
     bindM (emitM (BlueprintLoad blueprintPath)) (\<lambda>_.
     bindM (liftE BlueprintError (blueprintload_Load env blueprintPath)) (\<lambda>bp.
     bindM (emitM (FindDistro distroFlag (bp_Distro bp))) (\<lambda>_.
     bindM (liftE DistroError (findDistro env distroFlag (bp_Distro bp))) (\<lambda>distroStr.
     bindM (args0 args) (\<lambda>imgTypeStr.
     bindM (emitM (SetPulseMsgf ''Manifest generation step'')) (\<lambda>_.
     bindM (emitM (SetMessagef (''Building manifest for '' @ distroStr @ ''-'' @ imgTypeStr)))
       (\<lambda>_.
     bindM (returnM \<lparr>ro_DataDir = dataDir, ro_ExtraRepos = extraRepos,
                     ro_ForceRepos = forceRepos\<rparr>) (\<lambda>repoOpts.
     bindM (emitM (GetOneImage distroStr imgTypeStr archStr repoOpts)) (\<lambda>_.
     bindM (liftE ImageError (getOneImage env distroStr imgTypeStr archStr repoOpts)) (\<lambda>img.
     bindM (case archChecker of
              None \<Rightarrow> returnM ()
            | Some chk \<Rightarrow> (case chk (Arch_Name img) of
                            Some e \<Rightarrow> failM e
                          | None \<Rightarrow> returnM ())) (\<lambda>_.
     bindM (returnM \<lparr>mo_OutputDir = outputDir, mo_BlueprintPath = blueprintPath,
                     mo_Ostree = ostreeImgOpts, mo_RpmDownloader = rpmDownloader,
                     mo_WithSBOM = withSBOM, mo_ForceRepos = forceRepos\<rparr>) (\<lambda>opts.
     bindM (emitM (GenerateManifest dataDir extraRepos img w opts)) (\<lambda>_.
     bindM (liftE ManifestError (generateManifest env dataDir extraRepos img w opts)) (\<lambda>mf.
     returnM (img, mf)))))))))))))))))))))))))))"

definition cmdManifest :: "env \<Rightarrow> FlagSet \<Rightarrow> string list \<Rightarrow> unit io" where
  "cmdManifest env cmd args =
     bindM (emitM (ProgressNew [])) (\<lambda>_.
     bindM (liftE ProgressError (progress_New env [])) (\<lambda>pbar.
     bindM (cmdManifestWrapper env pbar cmd args osStdout None) (\<lambda>_.
     returnM ())))"

definition progressFromCmd :: "env \<Rightarrow> FlagSet \<Rightarrow> ProgressBar io" where
  "progressFromCmd env cmd =
     bindM (GetString cmd ''progress'') (\<lambda>progressFlag.
     bindM (GetBool cmd ''verbose'') (\<lambda>verbose.
     bindM (returnM (if progressFlag = ''auto'' \<and> verbose then ''verbose'' else progressFlag))
       (\<lambda>progressType.
     bindM (emitM (ProgressNew progressType)) (\<lambda>_.
     liftE ProgressError (progress_New env progressType)))))"

text \<open>The architecture check \<^verbatim>\<open>cmdBuild\<close> passes to \<^verbatim>\<open>cmdManifestWrapper\<close>.\<close>

definition archChecker :: "env \<Rightarrow> string \<Rightarrow> error option" where
  "archChecker env archStr =
     (if archStr \<noteq> arch_Current env then Some (ArchMismatch archStr (arch_Current env))
      else None)"

definition cmdBuild :: "env \<Rightarrow> FlagSet \<Rightarrow> string list \<Rightarrow> unit io" where
  "cmdBuild env cmd args =
     bindM (GetString cmd ''cache'') (\<lambda>cacheDir.
     bindM (GetString cmd ''output-dir'') (\<lambda>outputFlag.
     bindM (GetBool cmd ''with-manifest'') (\<lambda>withManifest.
     bindM (progressFromCmd env cmd) (\<lambda>pbar.
     bindM (emitM PbarStart) (\<lambda>_.
     deferM PbarStop (
       bindM (cmdManifestWrapper env pbar cmd args Buffer (Some (archChecker env)))
         (\<lambda>(res, mf).
       bindM (emitM (UploaderFor (ImgType_Name res))) (\<lambda>_.
       (case uploaderFor env cmd (ImgType_Name res) of (uploader, err) \<Rightarrow>
       bindM (case err of
                None \<Rightarrow> returnM ()
              | Some e \<Rightarrow>
                  if \<not> As_MissingUploadConfigError e \<and> \<not> As_UploadTypeUnsupportedError e
                  then failM (UploaderError e) else returnM ()) (\<lambda>_.
       bindM (case err of
                Some (MissingUploadConfigError am ms) \<Rightarrow>
                  if \<not> am
                  then failM (PartialUploadConfig (MissingUploadConfigError am ms))
                  else returnM ()
              | _ \<Rightarrow> returnM ()) (\<lambda>_.
       bindM (case uploader of
                None \<Rightarrow> returnM ()
              | Some u \<Rightarrow>
                  bindM (emitM (SetPulseMsgf ''Checking cloud access'')) (\<lambda>_.
                  bindM (emitM (UploaderCheck u)) (\<lambda>_.
                  liftO CloudAccessError (uploaderCheckWithProgress env u)))) (\<lambda>_.
       bindM (returnM (if outputFlag = [] then outputNameFor res else outputFlag))
         (\<lambda>outputDir.
       bindM (returnM \<lparr>bo_OutputDir = outputDir, bo_StoreDir = cacheDir,
                       bo_WriteManifest = withManifest\<rparr>) (\<lambda>buildOpts.
       bindM (emitM (SetPulseMsgf ''Image building step'')) (\<lambda>_.
       bindM (emitM (BuildImage res mf buildOpts)) (\<lambda>_.
       bindM (liftO BuildError (buildImage env res mf buildOpts)) (\<lambda>_.
       bindM (case uploader of
                None \<Rightarrow> returnM ()
              | Some u \<Rightarrow>
                  bindM (emitM PbarStop) (\<lambda>_.
                  bindM (returnM (filepath_Join env
                           [outputDir, ImgType_Name res, ImgType_Filename res])) (\<lambda>imagePath.
                  bindM (emitM (UploadImage u imagePath)) (\<lambda>_.
                  liftO UploadError (uploadImageWithProgress env u imagePath))))) (\<lambda>_.
       returnM ()))))))))))))))))))"

subsection \<open>The flags registered by \<^verbatim>\<open>run\<close>\<close>

text \<open>
  The flag set of the \<^verbatim>\<open>build\<close> command with the default values \<^verbatim>\<open>run\<close> registers: the
  persistent flags of the root command, the flags of \<^verbatim>\<open>manifest\<close>, the flags of \<^verbatim>\<open>build\<close>
  itself and the flags of \<^verbatim>\<open>upload\<close> added before \<^verbatim>\<open>--to\<close> is defined.
\<close>

definition buildCmd_Flags :: FlagSet where
  "buildCmd_Flags = map_of
     [(''datadir'', FString []),
      (''extra-repo'', FStringArray []),
      (''force-repo'', FStringArray []),
      (''output-dir'', FString []),
      (''verbose'', FBool False),
      (''blueprint'', FString []),
      (''arch'', FString []),
      (''distro'', FString []),
      (''ostree-ref'', FString []),
      (''ostree-parent'', FString []),
      (''ostree-url'', FString []),
      (''use-librepo'', FBool True),
      (''with-sbom'', FBool False),
      (''with-manifest'', FBool False),
      (''cache'', FString ''/var/cache/image-builder/store''),
      (''progress'', FString ''auto''),
      (''aws-ami-name'', FString []),
      (''aws-bucket'', FString []),
      (''aws-region'', FString [])]"

subsection \<open>Phases of a run\<close>

text \<open>
  The four operations whose order the pipeline fixes, read off the trace: the call of the
  manifest generator, of the build engine, of the upload access check and of the transfer.
\<close>

datatype phase = ManifestGeneration | UploadAccessCheck | BuildExecution | DataTransfer

fun phase_of :: "event \<Rightarrow> phase option" where
  "phase_of (GenerateManifest dd er img w opts) = Some ManifestGeneration"
| "phase_of (UploaderCheck u) = Some UploadAccessCheck"
| "phase_of (BuildImage img mf bo) = Some BuildExecution"
| "phase_of (UploadImage u p) = Some DataTransfer"
| "phase_of _ = None"

definition phases :: "event list \<Rightarrow> phase list" where
  "phases tr = List.map_filter phase_of tr"

text \<open>The steps (c) and (d) of the manifest stage: the pulse, the detail message and the
  call of the selection logic.\<close>

fun is_resolution_step :: "event \<Rightarrow> bool" where
  "is_resolution_step (SetPulseMsgf s) = True"
| "is_resolution_step (SetMessagef s) = True"
| "is_resolution_step (GetOneImage d t a ro) = True"
| "is_resolution_step _ = False"

subsection \<open>The upload configuration resolver\<close>

text \<open>
  Modelled from the spec: the upload target that \<^verbatim>\<open>uploaderFor\<close> resolves for, whose code
  is not under src. Section 4.1 speaks of the fields required for a supported upload
  target and of the image types the target supports; the target is a parameter of the
  resolver: the names of the flags that are its required fields, the image types it can
  upload, and its uploader.
\<close>

record upload_target =
  tg_fields :: "string list"
  tg_supports :: "string \<Rightarrow> bool"
  tg_uploader :: Uploader

text \<open>
  Modelled from the spec: when a field of \<^verbatim>\<open>uploaderFor\<close> counts as set. A field is a
  string flag; it is set when the flag has a value other than the empty string, the
  default \<^verbatim>\<open>run\<close> registers for the AWS flags.
\<close>

definition field_set :: "FlagSet \<Rightarrow> string \<Rightarrow> bool" where
  "field_set cmd n = (case cmd n of Some (FString s) \<Rightarrow> s \<noteq> [] | _ \<Rightarrow> False)"

text \<open>
  Modelled from the spec: the result type of \<^verbatim>\<open>uploaderFor\<close>, section 3: "a sum type over
  NotRequested, Ready(credentials/target), Invalid(reason)", with the two reasons of
  section 4.1.
\<close>

datatype invalid_reason = PartialConfiguration "string list" | UploadUnsupported string

datatype UploadConfig = NotRequested | Ready Uploader | Invalid invalid_reason

text \<open>
  Modelled from the spec: the body of \<^verbatim>\<open>uploaderFor\<close>, which is not under src. Section 4.1:
  the resolver returns NotRequested when "none of the fields relevant to any supported
  upload target were set"; Ready when "all fields required for exactly one supported
  upload target are present and that target supports the given image-type"; Invalid when
  "some but not all required fields for a target are present (partial configuration), or
  the image-type does not support uploading at all while upload fields were supplied".
  When fields are supplied for an image type without upload, the reason is the
  unsupported type, whether or not all fields are given: section 8 speaks of the partial
  configuration "of a supported target".
\<close>

definition resolveUploadConfig :: "upload_target \<Rightarrow> FlagSet \<Rightarrow> string \<Rightarrow> UploadConfig" where
  "resolveUploadConfig tg cmd t =
     (if filter (field_set cmd) (tg_fields tg) = [] then NotRequested
      else if \<not> tg_supports tg t then Invalid (UploadUnsupported t)
      else if filter (\<lambda>n. \<not> field_set cmd n) (tg_fields tg) = [] then Ready (tg_uploader tg)
      else Invalid (PartialConfiguration (filter (\<lambda>n. \<not> field_set cmd n) (tg_fields tg))))"

text \<open>
  Modelled from the spec: what \<^verbatim>\<open>uploaderFor\<close> hands to \<^verbatim>\<open>cmdBuild\<close>, Go's pair of an
  uploader and an error, for each result of section 4.1. NotRequested ("pipeline proceeds
  without upload, silently") is no uploader with an error \<^verbatim>\<open>cmdBuild\<close> lets pass: the
  \<^verbatim>\<open>*MissingUploadConfigError\<close> with \<^verbatim>\<open>allMissing\<close> set or, for an image type without
  upload, the \<^verbatim>\<open>*UploadTypeUnsupportedError\<close>. Ready is the uploader and no error. Invalid
  is fatal: for a partial configuration the \<^verbatim>\<open>*MissingUploadConfigError\<close> with
  \<^verbatim>\<open>allMissing\<close> false, naming the missing fields; for an image type without upload while
  fields were supplied an error of another kind, since \<^verbatim>\<open>cmdBuild\<close> lets every
  \<^verbatim>\<open>*UploadTypeUnsupportedError\<close> pass.
\<close>

definition uploaderFor_spec ::
  "upload_target \<Rightarrow> FlagSet \<Rightarrow> string \<Rightarrow> Uploader option \<times> UploaderForError option" where
  "uploaderFor_spec tg cmd t =
     (case resolveUploadConfig tg cmd t of
        NotRequested \<Rightarrow>
          (None, Some (if tg_supports tg t then MissingUploadConfigError True (tg_fields tg)
                       else UploadTypeUnsupportedError t))
      | Ready u \<Rightarrow> (Some u, None)
      | Invalid (PartialConfiguration missing) \<Rightarrow>
          (None, Some (MissingUploadConfigError False missing))
      | Invalid (UploadUnsupported t') \<Rightarrow>
          (None, Some (OtherUploaderError (''upload flags given for image type '' @ t'))))"

text \<open>No upload-related flag is set: no field of the upload target.\<close>

definition no_upload_flags :: "upload_target \<Rightarrow> FlagSet \<Rightarrow> bool" where
  "no_upload_flags tg cmd \<longleftrightarrow> filter (field_set cmd) (tg_fields tg) = []"

subsection \<open>A sample environment\<close>

text \<open>
  One value of \<open>env\<close>, for the concrete runs below: an x86_64 host on which every engine
  succeeds, a catalog for two architectures and the resolver above for one target, AWS:
  its fields are \<^verbatim>\<open>--aws-ami-name\<close>, \<^verbatim>\<open>--aws-bucket\<close> and \<^verbatim>\<open>--aws-region\<close>, and it
  uploads the image type \<^verbatim>\<open>ami\<close> (the help texts of the three flags in \<^verbatim>\<open>run\<close> say "only
  for type=ami").

  \<open>sample_Join\<close> is \<^verbatim>\<open>filepath.Join\<close> on elements that are already clean (no separator,
  no dot or dot-dot element): empty elements are dropped and the others joined by the
  separator.
\<close>

fun join_slash :: "string list \<Rightarrow> string" where
  "join_slash [] = []"
| "join_slash [x] = x"
| "join_slash (x # y # ys) = x @ ''/'' @ join_slash (y # ys)"

definition sample_Join :: "string list \<Rightarrow> string" where
  "sample_Join elems = join_slash (filter (\<lambda>x. x \<noteq> []) elems)"

definition aws_target :: upload_target where
  "aws_target =
     \<lparr>tg_fields = [''aws-ami-name'', ''aws-bucket'', ''aws-region''],
      tg_supports = (\<lambda>t. t = ''ami''),
      tg_uploader = Uploader ''aws''\<rparr>"

text \<open>
  Modelled from the spec: a catalog for the selection logic \<^verbatim>\<open>getOneImage\<close>, whose code is
  not under src. Section 6: "resolve(distro, imageType, arch, repoOptions)" returns an
  ImageDescriptor or a NotFoundError; section 4.2 (c): an unknown distro/type/arch
  combination is a failure. The sample catalog knows the architectures x86_64 and aarch64
  and resolves every distro and image type on them to the descriptor with the names asked
  for.
\<close>

definition sample_getOneImage ::
  "string \<Rightarrow> string \<Rightarrow> string \<Rightarrow> repoOptions \<Rightarrow> string + Result" where
  "sample_getOneImage d t a ro =
     (if a = ''x86_64'' \<or> a = ''aarch64''
      then Inr \<lparr>Distro_Name = d, ImgType_Name = t, Arch_Name = a,
                ImgType_Filename = ''image.raw''\<rparr>
      else Inl ''no such image'')"

definition sample_env :: env where
  "sample_env =
     \<lparr>arch_Current = ''x86_64'',
      progress_New = (\<lambda>kind. Inr (ProgressBar kind)),
      blueprintload_Load = (\<lambda>path. Inr \<lparr>bp_Distro = []\<rparr>),
      findDistro = (\<lambda>flag bp. Inr (if flag \<noteq> [] then flag
                                     else if bp \<noteq> [] then bp else ''fedora-41'')),
      getOneImage = sample_getOneImage,
      generateManifest = (\<lambda>dd er img w opts. Inr ''{}''),
      uploaderFor = uploaderFor_spec aws_target,
      uploaderCheckWithProgress = (\<lambda>u. None),
      buildImage = (\<lambda>img mf bo. None),
      uploadImageWithProgress = (\<lambda>u path. None),
      filepath_Join = sample_Join\<rparr>"

text \<open>The sample environment with a manifest generator that fails.\<close>

definition failing_manifest_env :: env where
  "failing_manifest_env =
     sample_env\<lparr>generateManifest := (\<lambda>dd er img w opts. Inl ''depsolve failed'')\<rparr>"

subsection \<open>Vocabulary of the properties\<close>

text \<open>
  The errors of \<^verbatim>\<open>uploaderFor\<close> that \<^verbatim>\<open>cmdBuild\<close> lets pass: none, a missing configuration
  with every field missing, an unsupported image type.
\<close>

definition soft_upload_error :: "UploaderForError option \<Rightarrow> bool" where
  "soft_upload_error err \<longleftrightarrow>
     (case err of
        None \<Rightarrow> True
      | Some (MissingUploadConfigError am ms) \<Rightarrow> am
      | Some (UploadTypeUnsupportedError t) \<Rightarrow> True
      | Some (OtherUploaderError m) \<Rightarrow> False)"

text \<open>The options \<^verbatim>\<open>cmdBuild\<close> hands to the build engine for the flags \<open>cmd\<close> and the image
  \<open>res\<close>.\<close>

definition build_options :: "FlagSet \<Rightarrow> Result \<Rightarrow> buildOptions \<Rightarrow> bool" where
  "build_options cmd res bo \<longleftrightarrow>
     (\<exists>cacheDir outputFlag withManifest.
        cmd ''cache'' = Some (FString cacheDir) \<and>
        cmd ''output-dir'' = Some (FString outputFlag) \<and>
        cmd ''with-manifest'' = Some (FBool withManifest) \<and>
        bo = \<lparr>bo_OutputDir = (if outputFlag = [] then outputNameFor res else outputFlag),
              bo_StoreDir = cacheDir, bo_WriteManifest = withManifest\<rparr>)"

text \<open>\<open>occurs_before a b tr\<close>: \<open>b\<close> occurs in \<open>tr\<close> after the first occurrence of \<open>a\<close>.\<close>

definition occurs_before :: "'a \<Rightarrow> 'a \<Rightarrow> 'a list \<Rightarrow> bool" where
  "occurs_before a b tr \<longleftrightarrow> b \<in> set (drop 1 (dropWhile (\<lambda>e. e \<noteq> a) tr))"

text \<open>
  What \<^verbatim>\<open>uploaderFor\<close> returns when no upload was asked for: no uploader, and either a
  \<^verbatim>\<open>*MissingUploadConfigError\<close> whose \<^verbatim>\<open>allMissing\<close> is set (no field of the target is given)
  or a \<^verbatim>\<open>*UploadTypeUnsupportedError\<close>.
\<close>

definition upload_not_requested :: "Uploader option \<times> UploaderForError option \<Rightarrow> bool" where
  "upload_not_requested res \<longleftrightarrow>
     (case res of
        (None, Some (MissingUploadConfigError am ms)) \<Rightarrow> am
      | (None, Some (UploadTypeUnsupportedError t)) \<Rightarrow> True
      | _ \<Rightarrow> False)"

text \<open>The kind \<^verbatim>\<open>progressFromCmd\<close> asks \<^verbatim>\<open>progress.New\<close> for, given the flags.\<close>

definition progress_kind :: "FlagSet \<Rightarrow> string \<Rightarrow> bool" where
  "progress_kind cmd k \<longleftrightarrow>
     (\<exists>p v. cmd ''progress'' = Some (FString p) \<and> cmd ''verbose'' = Some (FBool v) \<and>
            k = (if p = ''auto'' \<and> v then ''verbose'' else p))"

text \<open>
  The pipeline without upload: \<^verbatim>\<open>cmdBuild\<close> with the tests on the resolver's answer (lines
  238 to 243) and the two \<^verbatim>\<open>if uploader != nil\<close> blocks (lines 245 to 250 and 267 to 275)
  left out. The resolver is still consulted; nothing is done with its answer.
\<close>

definition cmdBuild_without_upload :: "env \<Rightarrow> FlagSet \<Rightarrow> string list \<Rightarrow> unit io" where
  "cmdBuild_without_upload env cmd args =
     bindM (GetString cmd ''cache'') (\<lambda>cacheDir.
     bindM (GetString cmd ''output-dir'') (\<lambda>outputFlag.
     bindM (GetBool cmd ''with-manifest'') (\<lambda>withManifest.
     bindM (progressFromCmd env cmd) (\<lambda>pbar.
     bindM (emitM PbarStart) (\<lambda>_.
     deferM PbarStop (
       bindM (cmdManifestWrapper env pbar cmd args Buffer (Some (archChecker env)))
         (\<lambda>(res, mf).
       bindM (emitM (UploaderFor (ImgType_Name res))) (\<lambda>_.
       bindM (returnM (if outputFlag = [] then outputNameFor res else outputFlag))
         (\<lambda>outputDir.
       bindM (returnM \<lparr>bo_OutputDir = outputDir, bo_StoreDir = cacheDir,
                       bo_WriteManifest = withManifest\<rparr>) (\<lambda>buildOpts.
       bindM (emitM (SetPulseMsgf ''Image building step'')) (\<lambda>_.
       bindM (emitM (BuildImage res mf buildOpts)) (\<lambda>_.
       bindM (liftO BuildError (buildImage env res mf buildOpts)) (\<lambda>_.
       returnM ())))))))))))))"


subsection \<open>Sample runs\<close>

text \<open>Flag sets of sample invocations: the defaults of \<^verbatim>\<open>run\<close> with some flags given.\<close>

definition upload_Flags :: FlagSet where
  "upload_Flags = buildCmd_Flags(''aws-ami-name'' \<mapsto> FString ''my-ami'',
     ''aws-bucket'' \<mapsto> FString ''mybucket'', ''aws-region'' \<mapsto> FString ''us-east-1'')"

definition bucket_only_Flags :: FlagSet where
  "bucket_only_Flags = buildCmd_Flags(''aws-bucket'' \<mapsto> FString ''mybucket'')"

definition aarch64_Flags :: FlagSet where
  "aarch64_Flags = buildCmd_Flags(''arch'' \<mapsto> FString ''aarch64'')"

definition riscv64_Flags :: FlagSet where
  "riscv64_Flags = buildCmd_Flags(''arch'' \<mapsto> FString ''riscv64'')"

definition bucket_only_aarch64_Flags :: FlagSet where
  "bucket_only_aarch64_Flags = buildCmd_Flags(''aws-bucket'' \<mapsto> FString ''mybucket'',
     ''arch'' \<mapsto> FString ''aarch64'')"

definition verbose_Flags :: FlagSet where
  "verbose_Flags = buildCmd_Flags(''verbose'' \<mapsto> FBool True)"

text \<open>The image the sample catalog resolves, the calls of a successful manifest stage in
  the sample environment, and the build options of a sample run.\<close>

definition sample_Result :: "string \<Rightarrow> string \<Rightarrow> Result" where
  "sample_Result t a =
     \<lparr>Distro_Name = ''fedora-41'', ImgType_Name = t, Arch_Name = a,
      ImgType_Filename = ''image.raw''\<rparr>"

definition sample_manifest_events :: "string \<Rightarrow> string \<Rightarrow> writer \<Rightarrow> event list" where
  "sample_manifest_events t a w =
     [BlueprintLoad [], FindDistro [] [],
      SetPulseMsgf ''Manifest generation step'',
      SetMessagef (''Building manifest for fedora-41-'' @ t),
      GetOneImage ''fedora-41'' t a
        \<lparr>ro_DataDir = [], ro_ExtraRepos = [], ro_ForceRepos = []\<rparr>,
      GenerateManifest [] [] (sample_Result t a) w
        \<lparr>mo_OutputDir = [], mo_BlueprintPath = [], mo_Ostree = None,
         mo_RpmDownloader = RpmDownloaderLibrepo, mo_WithSBOM = False,
         mo_ForceRepos = []\<rparr>]"

definition sample_buildOptions :: "string \<Rightarrow> buildOptions" where
  "sample_buildOptions dir =
     \<lparr>bo_OutputDir = dir, bo_StoreDir = ''/var/cache/image-builder/store'',
      bo_WriteManifest = False\<rparr>"


section \<open>Proof tools\<close>

subsection \<open>Running the model on concrete inputs\<close>

lemma bindM_Inr: "bindM (Inr x, tr) f = (case f x of (r, tr') \<Rightarrow> (r, tr @ tr'))"
  by (simp add: bindM_def)

lemma bindM_Inl: "bindM (Inl e, tr) f = (Inl e, tr)"
  by (simp add: bindM_def)

lemmas run_simps = cmdBuild_def cmdManifest_def cmdManifestWrapper_def progressFromCmd_def
  ostreeImageOptions_def args0_def archChecker_def outputNameFor_def
  GetString_def GetBool_def GetStringArray_def liftE_def liftO_def deferM_def
  bindM_Inr bindM_Inl emitM_def failM_def returnM_def
  sample_env_def sample_getOneImage_def failing_manifest_env_def uploaderFor_spec_def resolveUploadConfig_def
  field_set_def aws_target_def sample_Join_def buildCmd_Flags_def

subsection \<open>Stepping through a computation\<close>

lemma bindM_returnM: "bindM (returnM x) f = f x"
  by (simp add: bindM_def returnM_def split: prod.splits)

lemma bindM_failM: "bindM (failM e) f = failM e"
  by (simp add: bindM_def failM_def)

lemma returnM_eq [simp]: "returnM x = (r, tr) \<longleftrightarrow> r = Inr x \<and> tr = []"
  by (auto simp: returnM_def)

lemma failM_eq [simp]: "failM e = (r, tr) \<longleftrightarrow> r = Inl e \<and> tr = []"
  by (auto simp: failM_def)

lemma bindM_E:
  assumes "bindM m f = (r, tr)"
  obtains (fail) e where "m = (Inl e, tr)" "r = Inl e"
        | (ok) x tr1 tr2 where "m = (Inr x, tr1)" "f x = (r, tr2)" "tr = tr1 @ tr2"
  using assms by (auto simp: bindM_def split: prod.splits sum.splits)

lemma bindM_GetString_E:
  assumes "bindM (GetString cmd n) f = (r, tr)"
  obtains (fail) "r = Inl (FlagError n)" "tr = []"
        | (ok) s where "cmd n = Some (FString s)" "f s = (r, tr)"
  using assms
  by (auto simp: bindM_def GetString_def failM_def returnM_def
           split: option.splits flagval.splits prod.splits)

lemma bindM_GetBool_E:
  assumes "bindM (GetBool cmd n) f = (r, tr)"
  obtains (fail) "r = Inl (FlagError n)" "tr = []"
        | (ok) b where "cmd n = Some (FBool b)" "f b = (r, tr)"
  using assms
  by (auto simp: bindM_def GetBool_def failM_def returnM_def
           split: option.splits flagval.splits prod.splits)

lemma bindM_GetStringArray_E:
  assumes "bindM (GetStringArray cmd n) f = (r, tr)"
  obtains (fail) "r = Inl (FlagError n)" "tr = []"
        | (ok) xs where "cmd n = Some (FStringArray xs)" "f xs = (r, tr)"
  using assms
  by (auto simp: bindM_def GetStringArray_def failM_def returnM_def
           split: option.splits flagval.splits prod.splits)

lemma bindM_emitM_E:
  assumes "bindM (emitM ev) f = (r, tr)"
  obtains tr' where "tr = ev # tr'" "f () = (r, tr')"
  using assms by (auto simp: bindM_def emitM_def split: prod.splits)

lemma bindM_liftE_E:
  assumes "bindM (liftE mk res) f = (r, tr)"
  obtains (fail) m where "res = Inl m" "r = Inl (mk m)" "tr = []"
        | (ok) x where "res = Inr x" "f x = (r, tr)"
  using assms
  by (auto simp: bindM_def liftE_def failM_def returnM_def split: sum.splits prod.splits)

lemma bindM_liftO_E:
  assumes "bindM (liftO mk res) f = (r, tr)"
  obtains (fail) m where "res = Some m" "r = Inl (mk m)" "tr = []"
        | (ok) "res = None" "f () = (r, tr)"
  using assms
  by (auto simp: bindM_def liftO_def failM_def returnM_def split: option.splits prod.splits)

lemma bindM_args0_E:
  assumes "bindM (args0 args) f = (r, tr)"
  obtains (fail) "args = []" "r = Inl IndexOutOfRange" "tr = []"
        | (ok) a rest where "args = a # rest" "f a = (r, tr)"
  using assms
  by (auto simp: bindM_def args0_def failM_def returnM_def split: list.splits prod.splits)

lemma ostreeImageOptions_quiet:
  assumes "ostreeImageOptions cmd = (r, tr)"
  shows "tr = [] \<and> (\<forall>e. r = Inl e \<longrightarrow> (\<exists>n. e = FlagError n))"
  using assms unfolding ostreeImageOptions_def
  by (elim bindM_GetString_E) (simp_all split: if_splits)

lemma bindM_ostreeImageOptions_E:
  assumes "bindM (ostreeImageOptions cmd) f = (r, tr)"
  obtains (fail) n where "r = Inl (FlagError n)" "tr = []"
        | (ok) x where "f x = (r, tr)"
  using assms
proof (cases rule: bindM_E)
  case (fail e)
  with ostreeImageOptions_quiet [OF fail(1)] that(1) show ?thesis by blast
next
  case (ok x tr1 tr2)
  with ostreeImageOptions_quiet [OF ok(1)] that(2) show ?thesis by simp
qed

lemma bindM_archChecker_E:
  assumes "bindM (case chk of None \<Rightarrow> returnM ()
                  | Some c \<Rightarrow> (case c a of Some e \<Rightarrow> failM e | None \<Rightarrow> returnM ())) f = (r, tr)"
  obtains (fail) c e where "chk = Some c" "c a = Some e" "r = Inl e" "tr = []"
        | (ok) "\<forall>c. chk = Some c \<longrightarrow> c a = None" "f () = (r, tr)"
  using assms
  by (auto simp: bindM_def failM_def returnM_def split: option.splits prod.splits)

lemmas wrapper_elims = bindM_GetString_E bindM_GetBool_E bindM_GetStringArray_E bindM_emitM_E
  bindM_liftE_E bindM_args0_E bindM_ostreeImageOptions_E bindM_archChecker_E

subsection \<open>The outcomes of the manifest stage\<close>

lemma cmdManifestWrapper_cases:
  assumes "cmdManifestWrapper env pbar cmd args w chk = (r, tr)"
  shows "(\<exists>n. r = Inl (FlagError n) \<and> tr = [])
    \<or> (\<exists>p m. r = Inl (BlueprintError m) \<and> tr = [BlueprintLoad p])
    \<or> (\<exists>p df bd e. r = Inl e \<and> (e = IndexOutOfRange \<or> (\<exists>m. e = DistroError m))
          \<and> tr = [BlueprintLoad p, FindDistro df bd])
    \<or> (\<exists>p df bd d t a ro.
          tr = [BlueprintLoad p, FindDistro df bd, SetPulseMsgf ''Manifest generation step'',
                SetMessagef (''Building manifest for '' @ d @ ''-'' @ t), GetOneImage d t a ro]
          \<and> ((\<exists>m. getOneImage env d t a ro = Inl m \<and> r = Inl (ImageError m))
             \<or> (\<exists>img c e. getOneImage env d t a ro = Inr img \<and> chk = Some c
                   \<and> c (Arch_Name img) = Some e \<and> r = Inl e)))
    \<or> (\<exists>p df bd d t a ro dd er img opts.
          tr = [BlueprintLoad p, FindDistro df bd, SetPulseMsgf ''Manifest generation step'',
                SetMessagef (''Building manifest for '' @ d @ ''-'' @ t), GetOneImage d t a ro,
                GenerateManifest dd er img w opts]
          \<and> getOneImage env d t a ro = Inr img
          \<and> (\<forall>c. chk = Some c \<longrightarrow> c (Arch_Name img) = None)
          \<and> ((\<exists>m. r = Inl (ManifestError m)) \<or> (\<exists>mf. r = Inr (img, mf))))"
  using assms unfolding cmdManifestWrapper_def bindM_returnM
  by (elim wrapper_elims) simp_all

lemma cmdManifestWrapper_ok:
  assumes "cmdManifestWrapper env pbar cmd args w chk = (Inr (res, mf), tr)"
  shows "\<exists>p df bd d t a ro dd er opts.
          tr = [BlueprintLoad p, FindDistro df bd, SetPulseMsgf ''Manifest generation step'',
                SetMessagef (''Building manifest for '' @ d @ ''-'' @ t), GetOneImage d t a ro,
                GenerateManifest dd er res w opts]
          \<and> getOneImage env d t a ro = Inr res
          \<and> (\<forall>c. chk = Some c \<longrightarrow> c (Arch_Name res) = None)"
  using cmdManifestWrapper_cases [OF assms] by auto

subsection \<open>The outcomes of a build\<close>

lemma bindM_progressFromCmd_E:
  assumes "bindM (progressFromCmd env cmd) f = (r, tr)"
  obtains (flag) n where "r = Inl (FlagError n)" "tr = []"
     | (fail) p v m where "cmd ''progress'' = Some (FString p)" "cmd ''verbose'' = Some (FBool v)"
         "r = Inl (ProgressError m)"
         "tr = [ProgressNew (if p = ''auto'' \<and> v then ''verbose'' else p)]"
     | (ok) p v pbar tr' where "cmd ''progress'' = Some (FString p)"
         "cmd ''verbose'' = Some (FBool v)" "f pbar = (r, tr')"
         "tr = ProgressNew (if p = ''auto'' \<and> v then ''verbose'' else p) # tr'"
  using assms
proof (cases rule: bindM_E)
  case (fail e)
  from fail(1) show ?thesis unfolding progressFromCmd_def bindM_returnM
    by (elim bindM_GetString_E bindM_GetBool_E bindM_emitM_E)
       (use fail(2) that(1,2) in \<open>auto simp: liftE_def split: sum.splits\<close>)
next
  case (ok x tr1 tr2)
  from ok(1) show ?thesis unfolding progressFromCmd_def bindM_returnM
    by (elim bindM_GetString_E bindM_GetBool_E bindM_emitM_E)
       (use ok(2,3) that(3) in \<open>auto simp: liftE_def split: sum.splits\<close>)
qed

lemma deferM_E:
  assumes "deferM ev body = (r, tr)"
  obtains tr' where "body = (r, tr')" "tr = tr' @ [ev]"
  using assms by (auto simp: deferM_def split: prod.splits)

lemma cmdManifestWrapper_pbar:
  "cmdManifestWrapper env pbar cmd args w chk = cmdManifestWrapper env pbar' cmd args w chk"
  by (simp add: cmdManifestWrapper_def)

lemma bindM_cmdManifestWrapper_E:
  assumes "bindM (cmdManifestWrapper env pbar cmd args w chk) (\<lambda>(res, mf). g res mf) = (r, tr)"
  obtains (fail) e where "\<forall>pb. cmdManifestWrapper env pb cmd args w chk = (Inl e, tr)" "r = Inl e"
     | (ok) res mf wtr tr' where
         "\<forall>pb. cmdManifestWrapper env pb cmd args w chk = (Inr (res, mf), wtr)"
         "g res mf = (r, tr')" "tr = wtr @ tr'"
  using assms
proof (cases rule: bindM_E)
  case (fail e)
  with that(1) cmdManifestWrapper_pbar [of env _ cmd args w chk pbar] show ?thesis by metis
next
  case (ok x tr1 tr2)
  obtain res mf where x: "x = (res, mf)" by (cases x)
  with ok that(2) cmdManifestWrapper_pbar [of env _ cmd args w chk pbar] show ?thesis
    by (metis case_prod_conv)
qed

lemma case_prod_E:
  assumes "(case p of (a, b) \<Rightarrow> g a b) = q"
  obtains a b where "p = (a, b)" "g a b = q"
  using assms by (cases p) auto

text \<open>The errors of \<^verbatim>\<open>uploaderFor\<close> that \<^verbatim>\<open>cmdBuild\<close> lets pass.\<close>

lemma bindM_check_other_E:
  assumes "bindM (case err of None \<Rightarrow> returnM ()
             | Some e \<Rightarrow> if \<not> As_MissingUploadConfigError e \<and> \<not> As_UploadTypeUnsupportedError e
                         then failM (UploaderError e) else returnM ()) f = (r, tr)"
  obtains (fail) m where "err = Some (OtherUploaderError m)"
            "r = Inl (UploaderError (OtherUploaderError m))" "tr = []"
     | (ok) "\<forall>m. err \<noteq> Some (OtherUploaderError m)" "f () = (r, tr)"
proof (cases err)
  case None
  with assms that(2) show ?thesis by (simp add: bindM_returnM)
next
  case (Some e)
  with assms that show ?thesis
    by (cases e) (simp_all add: bindM_returnM bindM_failM)
qed

lemma bindM_check_partial_E:
  assumes "bindM (case err of
               Some (MissingUploadConfigError am ms) \<Rightarrow>
                 if \<not> am then failM (PartialUploadConfig (MissingUploadConfigError am ms))
                 else returnM ()
             | _ \<Rightarrow> returnM ()) f = (r, tr)"
  obtains (fail) ms where "err = Some (MissingUploadConfigError False ms)"
            "r = Inl (PartialUploadConfig (MissingUploadConfigError False ms))" "tr = []"
     | (ok) "\<forall>ms. err \<noteq> Some (MissingUploadConfigError False ms)" "f () = (r, tr)"
proof (cases err)
  case None
  with assms that(2) show ?thesis by (simp add: bindM_returnM)
next
  case (Some e)
  with assms that show ?thesis
    by (cases e) (auto simp: bindM_returnM bindM_failM split: if_splits)
qed

lemma bindM_access_check_E:
  assumes "bindM (case uploader of
               None \<Rightarrow> returnM ()
             | Some u \<Rightarrow>
                 bindM (emitM (SetPulseMsgf ''Checking cloud access'')) (\<lambda>_.
                 bindM (emitM (UploaderCheck u)) (\<lambda>_.
                 liftO CloudAccessError (uploaderCheckWithProgress env u)))) f = (r, tr)"
  obtains (none) "uploader = None" "f () = (r, tr)"
     | (fail) u m where "uploader = Some u" "uploaderCheckWithProgress env u = Some m"
         "r = Inl (CloudAccessError m)"
         "tr = [SetPulseMsgf ''Checking cloud access'', UploaderCheck u]"
     | (ok) u tr' where "uploader = Some u" "uploaderCheckWithProgress env u = None"
         "f () = (r, tr')"
         "tr = SetPulseMsgf ''Checking cloud access'' # UploaderCheck u # tr'"
proof (cases uploader)
  case None
  with assms that(1) show ?thesis by (simp add: bindM_returnM)
next
  case (Some u)
  with assms that(2,3) show ?thesis
    by (cases "uploaderCheckWithProgress env u")
       (auto simp: bindM_def emitM_def liftO_def failM_def returnM_def split: prod.splits)
qed

lemma bindM_transfer_E:
  assumes "bindM (case uploader of
               None \<Rightarrow> returnM ()
             | Some u \<Rightarrow>
                 bindM (emitM PbarStop) (\<lambda>_.
                 bindM (emitM (UploadImage u imagePath)) (\<lambda>_.
                 liftO UploadError (uploadImageWithProgress env u imagePath)))) f = (r, tr)"
  obtains (none) "uploader = None" "f () = (r, tr)"
     | (fail) u m where "uploader = Some u" "uploadImageWithProgress env u imagePath = Some m"
         "r = Inl (UploadError m)" "tr = [PbarStop, UploadImage u imagePath]"
     | (ok) u tr' where "uploader = Some u" "uploadImageWithProgress env u imagePath = None"
         "f () = (r, tr')" "tr = PbarStop # UploadImage u imagePath # tr'"
proof (cases uploader)
  case None
  with assms that(1) show ?thesis by (simp add: bindM_returnM)
next
  case (Some u)
  with assms that(2,3) show ?thesis
    by (cases "uploadImageWithProgress env u imagePath")
       (auto simp: bindM_def emitM_def liftO_def failM_def returnM_def split: prod.splits)
qed

lemmas build_elims = bindM_GetString_E bindM_GetBool_E bindM_progressFromCmd_E bindM_emitM_E
  deferM_E bindM_cmdManifestWrapper_E case_prod_E bindM_check_other_E bindM_check_partial_E
  bindM_access_check_E bindM_liftO_E bindM_transfer_E


lemma soft_upload_errorI:
  "\<forall>m. err \<noteq> Some (OtherUploaderError m) \<Longrightarrow>
   \<forall>ms. err \<noteq> Some (MissingUploadConfigError False ms) \<Longrightarrow> soft_upload_error err"
  by (auto simp: soft_upload_error_def split: option.splits UploaderForError.splits)

lemma build_optionsI:
  "cmd ''cache'' = Some (FString cacheDir) \<Longrightarrow> cmd ''output-dir'' = Some (FString outputFlag) \<Longrightarrow>
   cmd ''with-manifest'' = Some (FBool withManifest) \<Longrightarrow>
   build_options cmd res \<lparr>bo_OutputDir = (if outputFlag = [] then outputNameFor res else outputFlag),
              bo_StoreDir = cacheDir, bo_WriteManifest = withManifest\<rparr>"
  unfolding build_options_def by blast

lemma cmdBuild_cases:
  assumes "cmdBuild env cmd args = (r, tr)"
  shows "(\<exists>n. r = Inl (FlagError n) \<and> tr = [])
    \<or> (\<exists>k m. progress_kind cmd k \<and> r = Inl (ProgressError m) \<and> tr = [ProgressNew k])
    \<or> (\<exists>k e wtr. progress_kind cmd k \<and>
          cmdManifestWrapper env pbar cmd args Buffer (Some (archChecker env)) = (Inl e, wtr)
          \<and> r = Inl e \<and> tr = ProgressNew k # PbarStart # wtr @ [PbarStop])
    \<or> (\<exists>k res mf wtr u err rest. progress_kind cmd k \<and>
          cmdManifestWrapper env pbar cmd args Buffer (Some (archChecker env))
            = (Inr (res, mf), wtr)
          \<and> uploaderFor env cmd (ImgType_Name res) = (u, err)
          \<and> tr = ProgressNew k # PbarStart # wtr @ UploaderFor (ImgType_Name res) # rest
          \<and> ((\<exists>m. err = Some (OtherUploaderError m)
                  \<and> r = Inl (UploaderError (OtherUploaderError m)) \<and> rest = [PbarStop])
             \<or> (\<exists>ms. err = Some (MissingUploadConfigError False ms)
                  \<and> r = Inl (PartialUploadConfig (MissingUploadConfigError False ms))
                  \<and> rest = [PbarStop])
             \<or> (\<exists>up m. soft_upload_error err \<and> u = Some up
                  \<and> uploaderCheckWithProgress env up = Some m
                  \<and> r = Inl (CloudAccessError m)
                  \<and> rest = [SetPulseMsgf ''Checking cloud access'', UploaderCheck up,
                            PbarStop])
             \<or> (\<exists>bo. soft_upload_error err \<and> u = None \<and> build_options cmd res bo
                  \<and> r = (case buildImage env res mf bo of
                            None \<Rightarrow> Inr () | Some m \<Rightarrow> Inl (BuildError m))
                  \<and> rest = [SetPulseMsgf ''Image building step'', BuildImage res mf bo,
                            PbarStop])
             \<or> (\<exists>up bo m. soft_upload_error err \<and> u = Some up \<and> build_options cmd res bo
                  \<and> uploaderCheckWithProgress env up = None
                  \<and> buildImage env res mf bo = Some m
                  \<and> r = Inl (BuildError m)
                  \<and> rest = [SetPulseMsgf ''Checking cloud access'', UploaderCheck up,
                            SetPulseMsgf ''Image building step'', BuildImage res mf bo,
                            PbarStop])
             \<or> (\<exists>up bo path. soft_upload_error err \<and> u = Some up \<and> build_options cmd res bo
                  \<and> uploaderCheckWithProgress env up = None
                  \<and> buildImage env res mf bo = None
                  \<and> path = filepath_Join env
                             [bo_OutputDir bo, ImgType_Name res, ImgType_Filename res]
                  \<and> r = (case uploadImageWithProgress env up path of
                            None \<Rightarrow> Inr () | Some m \<Rightarrow> Inl (UploadError m))
                  \<and> rest = [SetPulseMsgf ''Checking cloud access'', UploaderCheck up,
                            SetPulseMsgf ''Image building step'', BuildImage res mf bo,
                            PbarStop, UploadImage up path, PbarStop])))"
  using assms unfolding cmdBuild_def bindM_returnM
  by (elim build_elims) (simp_all add: soft_upload_errorI build_options_def progress_kind_def)

subsection \<open>Concrete runs in the sample environment\<close>

lemmas sample_defs = sample_Result_def sample_manifest_events_def sample_buildOptions_def

lemma sample_env_simps:
  "arch_Current sample_env = ''x86_64''"
  "getOneImage sample_env d t a ro =
     (if a = ''x86_64'' \<or> a = ''aarch64''
      then Inr \<lparr>Distro_Name = d, ImgType_Name = t, Arch_Name = a,
                ImgType_Filename = ''image.raw''\<rparr>
      else Inl ''no such image'')"
  "uploaderFor sample_env = uploaderFor_spec aws_target"
  "buildImage sample_env img mf bo = None"
  by (simp_all add: sample_env_def sample_getOneImage_def)


lemma run_upload:
  "cmdBuild sample_env upload_Flags [''ami''] =
     (Inr (),
      [ProgressNew ''auto'', PbarStart] @ sample_manifest_events ''ami'' ''x86_64'' Buffer @
      [UploaderFor ''ami'', SetPulseMsgf ''Checking cloud access'',
       UploaderCheck (Uploader ''aws''), SetPulseMsgf ''Image building step'',
       BuildImage (sample_Result ''ami'' ''x86_64'') ''{}''
         (sample_buildOptions ''fedora-41-ami-x86_64''),
       PbarStop,
       UploadImage (Uploader ''aws'') ''fedora-41-ami-x86_64/ami/image.raw'',
       PbarStop])"
  by (simp add: run_simps upload_Flags_def sample_defs)

lemma run_bucket_only_ami:
  "cmdBuild sample_env bucket_only_Flags [''ami''] =
     (Inl (PartialUploadConfig
            (MissingUploadConfigError False [''aws-ami-name'', ''aws-region''])),
      [ProgressNew ''auto'', PbarStart] @ sample_manifest_events ''ami'' ''x86_64'' Buffer @
      [UploaderFor ''ami'', PbarStop])"
  by (simp add: run_simps bucket_only_Flags_def sample_defs)


lemma run_bucket_only_aarch64_ami:
  "cmdBuild sample_env bucket_only_aarch64_Flags [''ami''] =
     (Inl (ArchMismatch ''aarch64'' ''x86_64''),
      [ProgressNew ''auto'', PbarStart, BlueprintLoad [], FindDistro [] [],
       SetPulseMsgf ''Manifest generation step'',
       SetMessagef ''Building manifest for fedora-41-ami'',
       GetOneImage ''fedora-41'' ''ami'' ''aarch64''
         \<lparr>ro_DataDir = [], ro_ExtraRepos = [], ro_ForceRepos = []\<rparr>,
       PbarStop])"
  by (simp add: run_simps bucket_only_aarch64_Flags_def)

lemma run_riscv64:
  "cmdBuild sample_env riscv64_Flags [''qcow2''] =
     (Inl (ImageError ''no such image''),
      [ProgressNew ''auto'', PbarStart, BlueprintLoad [], FindDistro [] [],
       SetPulseMsgf ''Manifest generation step'',
       SetMessagef ''Building manifest for fedora-41-qcow2'',
       GetOneImage ''fedora-41'' ''qcow2'' ''riscv64''
         \<lparr>ro_DataDir = [], ro_ExtraRepos = [], ro_ForceRepos = []\<rparr>,
       PbarStop])"
  by (simp add: run_simps riscv64_Flags_def)


lemma run_default_qcow2:
  "cmdBuild sample_env buildCmd_Flags [''qcow2''] =
     (Inr (),
      [ProgressNew ''auto'', PbarStart] @ sample_manifest_events ''qcow2'' ''x86_64'' Buffer @
      [UploaderFor ''qcow2'', SetPulseMsgf ''Image building step'',
       BuildImage (sample_Result ''qcow2'' ''x86_64'') ''{}''
         (sample_buildOptions ''fedora-41-qcow2-x86_64''),
       PbarStop])"
  by (simp add: run_simps sample_defs)

lemma run_verbose_qcow2:
  "cmdBuild sample_env verbose_Flags [''qcow2''] =
     (Inr (),
      [ProgressNew ''verbose'', PbarStart] @
      sample_manifest_events ''qcow2'' ''x86_64'' Buffer @
      [UploaderFor ''qcow2'', SetPulseMsgf ''Image building step'',
       BuildImage (sample_Result ''qcow2'' ''x86_64'') ''{}''
         (sample_buildOptions ''fedora-41-qcow2-x86_64''),
       PbarStop])"
  by (simp add: run_simps verbose_Flags_def sample_defs)

lemma run_aarch64:
  "cmdBuild sample_env aarch64_Flags [''qcow2''] =
     (Inl (ArchMismatch ''aarch64'' ''x86_64''),
      [ProgressNew ''auto'', PbarStart, BlueprintLoad [], FindDistro [] [],
       SetPulseMsgf ''Manifest generation step'',
       SetMessagef ''Building manifest for fedora-41-qcow2'',
       GetOneImage ''fedora-41'' ''qcow2'' ''aarch64''
         \<lparr>ro_DataDir = [], ro_ExtraRepos = [], ro_ForceRepos = []\<rparr>,
       PbarStop])"
  by (simp add: run_simps aarch64_Flags_def)

lemma run_manifest_aarch64:
  "cmdManifest sample_env aarch64_Flags [''qcow2''] =
     (Inr (), ProgressNew [] # sample_manifest_events ''qcow2'' ''aarch64'' osStdout)"
  by (simp add: run_simps aarch64_Flags_def sample_defs)

lemma run_wrapper_qcow2:
  "cmdManifestWrapper sample_env (ProgressBar []) buildCmd_Flags [''qcow2''] osStdout None =
     (Inr (sample_Result ''qcow2'' ''x86_64'', ''{}''),
      sample_manifest_events ''qcow2'' ''x86_64'' osStdout)"
  by (simp add: run_simps sample_defs)

subsection \<open>Phases of the two commands\<close>

lemma phases_simps [simp]:
  "phases [] = []"
  "phases (e # tr) = (case phase_of e of None \<Rightarrow> phases tr | Some p \<Rightarrow> p # phases tr)"
  "phases (tr @ tr') = phases tr @ phases tr'"
  by (simp_all add: phases_def List.map_filter_def split: option.splits)

lemma cmdManifestWrapper_phases:
  assumes "cmdManifestWrapper env pbar cmd args w chk = (r, tr)"
  shows "(\<exists>x. r = Inr x) \<and> phases tr = [ManifestGeneration]
       \<or> (\<exists>e. r = Inl e) \<and> (phases tr = [] \<or> phases tr = [ManifestGeneration])"
  using cmdManifestWrapper_cases [OF assms] by auto

lemma cmdBuild_phases:
  "phases (snd (cmdBuild env cmd args)) \<in>
     {[], [ManifestGeneration],
      [ManifestGeneration, UploadAccessCheck],
      [ManifestGeneration, BuildExecution],
      [ManifestGeneration, UploadAccessCheck, BuildExecution],
      [ManifestGeneration, UploadAccessCheck, BuildExecution, DataTransfer]}"
proof -
  obtain r tr where run: "cmdBuild env cmd args = (r, tr)"
    by (cases "cmdBuild env cmd args")
  from cmdBuild_cases [OF run, of "ProgressBar []"] show ?thesis
    unfolding run snd_conv
    by (elim disjE exE conjE) (auto dest!: cmdManifestWrapper_phases)
qed

lemma cmdManifestWrapper_events:
  assumes "cmdManifestWrapper env pbar cmd args w chk = (r, tr)"
  shows "UploaderFor t \<notin> set tr" "ProgressNew k \<notin> set tr" "BuildImage img mf bo \<notin> set tr"
    "UploadImage u p \<notin> set tr" "UploaderCheck u \<notin> set tr" "PbarStop \<notin> set tr"
  using cmdManifestWrapper_cases [OF assms] by auto

lemma cmdManifest_error:
  assumes "cmdManifest env cmd args = (Inl e, tr)"
  shows "\<forall>a h. e \<noteq> ArchMismatch a h"
  using assms unfolding cmdManifest_def
proof (elim bindM_emitM_E bindM_liftE_E bindM_E, goal_cases)
  case (1 tr' m)
  then show ?case by simp
next
  case (2 tr' x e')
  from cmdManifestWrapper_cases [OF 2(3)] 2(4) show ?case by auto
next
  case (3 tr' x y tr1 tr2)
  then show ?case by simp
qed


lemma first_occurrence_prefix:
  assumes "A @ x # B = pre @ x # post" and "x \<notin> set A"
  shows "\<exists>pre'. pre = A @ pre'"
  using assms
  by (auto simp: append_eq_append_conv2 Cons_eq_append_conv append_eq_Cons_conv)

lemma cmdManifest_phases:
  "DataTransfer \<notin> set (phases (snd (cmdManifest env cmd args)))"
proof -
  obtain r tr where run: "cmdManifest env cmd args = (r, tr)"
    by (cases "cmdManifest env cmd args")
  from run have "DataTransfer \<notin> set (phases tr)"
    unfolding cmdManifest_def
    by (elim bindM_emitM_E bindM_liftE_E bindM_E)
       (auto dest: cmdManifestWrapper_phases)
  then show ?thesis by (simp add: run)
qed

subsection \<open>Runs in which no upload is requested\<close>

lemma uploaderFor_spec_no_flags:
  assumes "no_upload_flags tg cmd"
  shows "upload_not_requested (uploaderFor_spec tg cmd t)"
  using assms
  by (simp add: no_upload_flags_def uploaderFor_spec_def resolveUploadConfig_def
        upload_not_requested_def)


lemma upload_not_requestedD:
  assumes "upload_not_requested (u, err)"
  shows "u = None \<and> ((\<exists>ms. err = Some (MissingUploadConfigError True ms))
                      \<or> (\<exists>t. err = Some (UploadTypeUnsupportedError t)))"
  using assms
  by (auto simp: upload_not_requested_def split: option.splits UploaderForError.splits)

lemma cmdBuild_not_requested:
  assumes "\<forall>t. upload_not_requested (uploaderFor env cmd t)"
  shows "cmdBuild env cmd args = cmdBuild_without_upload env cmd args"
proof -
  have tail:
    "(case uploaderFor env cmd (ImgType_Name res) of (uploader, err) \<Rightarrow>
       bindM (case err of
                None \<Rightarrow> returnM ()
              | Some e \<Rightarrow>
                  if \<not> As_MissingUploadConfigError e \<and> \<not> As_UploadTypeUnsupportedError e
                  then failM (UploaderError e) else returnM ()) (\<lambda>_.
       bindM (case err of
                Some (MissingUploadConfigError am ms) \<Rightarrow>
                  if \<not> am
                  then failM (PartialUploadConfig (MissingUploadConfigError am ms))
                  else returnM ()
              | _ \<Rightarrow> returnM ()) (\<lambda>_.
       bindM (case uploader of
                None \<Rightarrow> returnM ()
              | Some u \<Rightarrow>
                  bindM (emitM (SetPulseMsgf ''Checking cloud access'')) (\<lambda>_.
                  bindM (emitM (UploaderCheck u)) (\<lambda>_.
                  liftO CloudAccessError (uploaderCheckWithProgress env u)))) (\<lambda>_.
       bindM (returnM (if outputFlag = [] then outputNameFor res else outputFlag))
         (\<lambda>outputDir.
       bindM (returnM \<lparr>bo_OutputDir = outputDir, bo_StoreDir = cacheDir,
                       bo_WriteManifest = withManifest\<rparr>) (\<lambda>buildOpts.
       bindM (emitM (SetPulseMsgf ''Image building step'')) (\<lambda>_.
       bindM (emitM (BuildImage res mf buildOpts)) (\<lambda>_.
       bindM (liftO BuildError (buildImage env res mf buildOpts)) (\<lambda>_.
       bindM (case uploader of
                None \<Rightarrow> returnM ()
              | Some u \<Rightarrow>
                  bindM (emitM PbarStop) (\<lambda>_.
                  bindM (returnM (filepath_Join env
                           [outputDir, ImgType_Name res, ImgType_Filename res])) (\<lambda>imagePath.
                  bindM (emitM (UploadImage u imagePath)) (\<lambda>_.
                  liftO UploadError (uploadImageWithProgress env u imagePath))))) (\<lambda>_.
       returnM ()))))))))))
     = bindM (returnM (if outputFlag = [] then outputNameFor res else outputFlag))
         (\<lambda>outputDir.
       bindM (returnM \<lparr>bo_OutputDir = outputDir, bo_StoreDir = cacheDir,
                       bo_WriteManifest = withManifest\<rparr>) (\<lambda>buildOpts.
       bindM (emitM (SetPulseMsgf ''Image building step'')) (\<lambda>_.
       bindM (emitM (BuildImage res mf buildOpts)) (\<lambda>_.
       bindM (liftO BuildError (buildImage env res mf buildOpts)) (\<lambda>_.
       returnM ())))))"
    for res mf cacheDir outputFlag withManifest
  proof -
    obtain u err where r: "uploaderFor env cmd (ImgType_Name res) = (u, err)"
      by (cases "uploaderFor env cmd (ImgType_Name res)")
    from assms [rule_format, of "ImgType_Name res"] r
    have "upload_not_requested (u, err)" by simp
    from upload_not_requestedD [OF this] show ?thesis
      unfolding r by (auto simp: bindM_returnM)
  qed
  show ?thesis
    unfolding cmdBuild_def cmdBuild_without_upload_def by (simp only: tail)
qed

lemma cmdBuild_not_requested_run:
  assumes "\<forall>t. upload_not_requested (uploaderFor env cmd t)"
  shows "UploadAccessCheck \<notin> set (phases (snd (cmdBuild env cmd args)))
         \<and> DataTransfer \<notin> set (phases (snd (cmdBuild env cmd args)))
         \<and> (\<forall>res mf bo. BuildImage res mf bo \<in> set (snd (cmdBuild env cmd args)) \<longrightarrow>
               fst (cmdBuild env cmd args)
                 = (case buildImage env res mf bo of
                      None \<Rightarrow> Inr () | Some m \<Rightarrow> Inl (BuildError m)))"
proof -
  obtain r tr where run: "cmdBuild env cmd args = (r, tr)"
    by (cases "cmdBuild env cmd args")
  have nr: "u = None \<and> (\<forall>ms. err \<noteq> Some (MissingUploadConfigError False ms))
              \<and> (\<forall>m. err \<noteq> Some (OtherUploaderError m))"
    if "uploaderFor env cmd t = (u, err)" for t u err
    using assms [rule_format, of t] that
    by (auto simp: upload_not_requested_def split: option.splits)
  from cmdBuild_cases [OF run, of "ProgressBar []"] show ?thesis
    unfolding run fst_conv snd_conv
    by (elim disjE exE conjE)
       (auto dest: cmdManifestWrapper_events cmdManifestWrapper_phases dest!: nr)
qed


section \<open>Properties of the pipeline\<close>

text \<open>
  C1 (corrected). The claim puts build execution before the upload access check. The code
  checks cloud access before it builds: in every build invocation that transfers data, the
  order is manifest generation, upload access check, build execution, data transfer.
  The sample run \<^verbatim>\<open>build ami\<close> with the three AWS flags shows the order of the code.
\<close>

theorem build_before_access_check_counterexample:
  "DataTransfer \<in> set (phases (snd (cmdBuild sample_env upload_Flags [''ami''])))
   \<and> phases (snd (cmdBuild sample_env upload_Flags [''ami'']))
       = [ManifestGeneration, UploadAccessCheck, BuildExecution, DataTransfer]
   \<and> \<not> occurs_before BuildExecution UploadAccessCheck
         (phases (snd (cmdBuild sample_env upload_Flags [''ami''])))"
  by (simp add: run_upload sample_defs occurs_before_def)

text \<open>
  C1, amended: in every build invocation that reaches the data transfer, the operations
  occur in the order manifest generation, upload access check, build execution, data
  transfer.
\<close>

theorem pipeline_phase_order:
  assumes "DataTransfer \<in> set (phases (snd (cmdBuild env cmd args)))"
  shows "phases (snd (cmdBuild env cmd args))
           = [ManifestGeneration, UploadAccessCheck, BuildExecution, DataTransfer]"
  using assms cmdBuild_phases [of env cmd args] by auto

theorem pipeline_phase_order_witness:
  "DataTransfer \<in> set (phases (snd (cmdBuild sample_env upload_Flags [''ami''])))
   \<and> phases (snd (cmdBuild sample_env upload_Flags [''ami'']))
       = [ManifestGeneration, UploadAccessCheck, BuildExecution, DataTransfer]"
proof -
  have h: "DataTransfer \<in> set (phases (snd (cmdBuild sample_env upload_Flags [''ami''])))"
    by (simp add: run_upload sample_defs)
  from h pipeline_phase_order [OF h] show ?thesis by blast
qed

text \<open>
  C2 (corrected). As stated the claim fails: the resolver is consulted only after the
  manifest stage, so an invocation with a partial upload configuration whose manifest
  stage fails returns that stage's error. In the sample run
  \<^verbatim>\<open>build ami --aws-bucket mybucket --arch aarch64\<close> on an x86_64 host the bucket is given
  and the region is not, the resolver's answer for these flags is the partial
  configuration, and the invocation returns the architecture-mismatch error.
\<close>

theorem partial_upload_config_error_counterexample:
  "field_set bucket_only_aarch64_Flags ''aws-bucket''
   \<and> \<not> field_set bucket_only_aarch64_Flags ''aws-region''
   \<and> uploaderFor sample_env bucket_only_aarch64_Flags ''ami''
       = (None, Some (MissingUploadConfigError False [''aws-ami-name'', ''aws-region'']))
   \<and> fst (cmdBuild sample_env bucket_only_aarch64_Flags [''ami''])
       = Inl (ArchMismatch ''aarch64'' ''x86_64'')
   \<and> fst (cmdBuild sample_env bucket_only_aarch64_Flags [''ami''])
       \<noteq> Inl (PartialUploadConfig
                (MissingUploadConfigError False [''aws-ami-name'', ''aws-region'']))"
proof -
  have "field_set bucket_only_aarch64_Flags ''aws-bucket''"
    by (simp add: field_set_def bucket_only_aarch64_Flags_def)
  moreover have "\<not> field_set bucket_only_aarch64_Flags ''aws-region''"
    by (simp add: field_set_def bucket_only_aarch64_Flags_def buildCmd_Flags_def)
  moreover have "uploaderFor sample_env bucket_only_aarch64_Flags ''ami''
       = (None, Some (MissingUploadConfigError False [''aws-ami-name'', ''aws-region'']))"
    by (simp add: sample_env_simps uploaderFor_spec_def resolveUploadConfig_def
          field_set_def aws_target_def bucket_only_aarch64_Flags_def buildCmd_Flags_def)
  moreover have "fst (cmdBuild sample_env bucket_only_aarch64_Flags [''ami''])
       = Inl (ArchMismatch ''aarch64'' ''x86_64'')"
    by (simp add: run_bucket_only_aarch64_ami)
  ultimately show ?thesis by simp
qed


text \<open>
  C2, amended: for every build invocation whose manifest stage succeeds, so that the
  resolver is consulted, and for which the resolver reports a partial upload configuration
  (\<^verbatim>\<open>uploaderFor\<close> returns a \<^verbatim>\<open>*MissingUploadConfigError\<close> whose \<^verbatim>\<open>allMissing\<close> is false), the
  pipeline returns the error "partial upload config provided" and the build engine is
  never called.
\<close>

theorem partial_upload_config_fails_before_build:
  assumes "UploaderFor t \<in> set (snd (cmdBuild env cmd args))"
      and "uploaderFor env cmd t = (u, Some (MissingUploadConfigError False ms))"
  shows "fst (cmdBuild env cmd args)
           = Inl (PartialUploadConfig (MissingUploadConfigError False ms))
         \<and> BuildExecution \<notin> set (phases (snd (cmdBuild env cmd args)))"
proof -
  obtain r tr where run: "cmdBuild env cmd args = (r, tr)"
    by (cases "cmdBuild env cmd args")
  from cmdBuild_cases [OF run, of "ProgressBar []"] assms show ?thesis
    unfolding run fst_conv snd_conv
    by (elim disjE exE conjE)
       (auto simp: soft_upload_error_def
             dest: cmdManifestWrapper_events cmdManifestWrapper_phases)
qed

theorem partial_upload_config_fails_before_build_witness:
  "UploaderFor ''ami'' \<in> set (snd (cmdBuild sample_env bucket_only_Flags [''ami'']))
   \<and> uploaderFor sample_env bucket_only_Flags ''ami''
       = (None, Some (MissingUploadConfigError False [''aws-ami-name'', ''aws-region'']))
   \<and> fst (cmdBuild sample_env bucket_only_Flags [''ami''])
       = Inl (PartialUploadConfig
               (MissingUploadConfigError False [''aws-ami-name'', ''aws-region'']))
   \<and> BuildExecution \<notin> set (phases (snd (cmdBuild sample_env bucket_only_Flags [''ami''])))"
proof -
  have h1: "UploaderFor ''ami'' \<in> set (snd (cmdBuild sample_env bucket_only_Flags [''ami'']))"
    by (simp add: run_bucket_only_ami)
  have h2: "uploaderFor sample_env bucket_only_Flags ''ami''
       = (None, Some (MissingUploadConfigError False [''aws-ami-name'', ''aws-region'']))"
    by (simp add: sample_env_simps uploaderFor_spec_def resolveUploadConfig_def
          field_set_def aws_target_def bucket_only_Flags_def buildCmd_Flags_def)
  from h1 h2 partial_upload_config_fails_before_build [OF h1 h2] show ?thesis by blast
qed

text \<open>
  C3 (corrected). The claim lets the architecture-mismatch error come after manifest
  generation has succeeded. In the code the check runs in \<^verbatim>\<open>cmdManifestWrapper\<close> right after
  the image is resolved and before \<^verbatim>\<open>generateManifest\<close> is called: in the sample run
  \<^verbatim>\<open>build qcow2 --arch aarch64\<close> on an x86_64 host the build fails with the mismatch error
  and the manifest generator has not been called.
\<close>

theorem arch_mismatch_after_manifest_counterexample:
  "GetOneImage ''fedora-41'' ''qcow2'' ''aarch64''
      \<lparr>ro_DataDir = [], ro_ExtraRepos = [], ro_ForceRepos = []\<rparr>
     \<in> set (snd (cmdBuild sample_env aarch64_Flags [''qcow2'']))
   \<and> getOneImage sample_env ''fedora-41'' ''qcow2'' ''aarch64''
        \<lparr>ro_DataDir = [], ro_ExtraRepos = [], ro_ForceRepos = []\<rparr>
       = Inr (sample_Result ''qcow2'' ''aarch64'')
   \<and> Arch_Name (sample_Result ''qcow2'' ''aarch64'') \<noteq> arch_Current sample_env
   \<and> fst (cmdBuild sample_env aarch64_Flags [''qcow2''])
       = Inl (ArchMismatch ''aarch64'' ''x86_64'')
   \<and> ManifestGeneration \<notin> set (phases (snd (cmdBuild sample_env aarch64_Flags [''qcow2''])))"
  by (simp add: run_aarch64 sample_env_simps sample_Result_def)

text \<open>
  C3, amended: for every build invocation whose resolved target architecture differs from
  the host architecture, the pipeline fails with the architecture-mismatch error after
  the image has been resolved, before manifest generation and before the build engine:
  neither is called.
\<close>

theorem arch_mismatch_before_manifest:
  assumes "GetOneImage d t a ro \<in> set (snd (cmdBuild env cmd args))"
      and "getOneImage env d t a ro = Inr img"
      and "Arch_Name img \<noteq> arch_Current env"
  shows "fst (cmdBuild env cmd args) = Inl (ArchMismatch (Arch_Name img) (arch_Current env))
         \<and> ManifestGeneration \<notin> set (phases (snd (cmdBuild env cmd args)))
         \<and> BuildExecution \<notin> set (phases (snd (cmdBuild env cmd args)))"
proof -
  obtain r tr where run: "cmdBuild env cmd args = (r, tr)"
    by (cases "cmdBuild env cmd args")
  from cmdBuild_cases [OF run, of "ProgressBar []"] assms show ?thesis
    unfolding run fst_conv snd_conv
    by (elim disjE exE conjE)
       (auto simp: archChecker_def dest!: cmdManifestWrapper_cases split: if_splits)
qed

theorem arch_mismatch_before_manifest_witness:
  "GetOneImage ''fedora-41'' ''qcow2'' ''aarch64''
      \<lparr>ro_DataDir = [], ro_ExtraRepos = [], ro_ForceRepos = []\<rparr>
     \<in> set (snd (cmdBuild sample_env aarch64_Flags [''qcow2'']))
   \<and> getOneImage sample_env ''fedora-41'' ''qcow2'' ''aarch64''
        \<lparr>ro_DataDir = [], ro_ExtraRepos = [], ro_ForceRepos = []\<rparr>
       = Inr (sample_Result ''qcow2'' ''aarch64'')
   \<and> Arch_Name (sample_Result ''qcow2'' ''aarch64'') \<noteq> arch_Current sample_env
   \<and> fst (cmdBuild sample_env aarch64_Flags [''qcow2''])
       = Inl (ArchMismatch (Arch_Name (sample_Result ''qcow2'' ''aarch64''))
               (arch_Current sample_env))
   \<and> ManifestGeneration \<notin> set (phases (snd (cmdBuild sample_env aarch64_Flags [''qcow2''])))
   \<and> BuildExecution \<notin> set (phases (snd (cmdBuild sample_env aarch64_Flags [''qcow2''])))"
proof -
  have h1: "GetOneImage ''fedora-41'' ''qcow2'' ''aarch64''
      \<lparr>ro_DataDir = [], ro_ExtraRepos = [], ro_ForceRepos = []\<rparr>
     \<in> set (snd (cmdBuild sample_env aarch64_Flags [''qcow2'']))"
    by (simp add: run_aarch64)
  have h2: "getOneImage sample_env ''fedora-41'' ''qcow2'' ''aarch64''
        \<lparr>ro_DataDir = [], ro_ExtraRepos = [], ro_ForceRepos = []\<rparr>
       = Inr (sample_Result ''qcow2'' ''aarch64'')"
    by (simp add: sample_env_simps sample_Result_def)
  have h3: "Arch_Name (sample_Result ''qcow2'' ''aarch64'') \<noteq> arch_Current sample_env"
    by (simp add: sample_env_simps sample_Result_def)
  from h1 h2 h3 arch_mismatch_before_manifest [OF h1 h2 h3] show ?thesis by blast
qed

text \<open>
  C4 (corrected). The claim resolves the image before the pulse and the detail message are
  reported. The code reports both first and calls \<^verbatim>\<open>getOneImage\<close> afterwards; the message
  names the distro found by \<^verbatim>\<open>findDistro\<close> and the image-type argument, the values the
  selection logic is then called with.
\<close>

theorem resolution_before_pulse_counterexample:
  "snd (cmdManifestWrapper sample_env (ProgressBar []) buildCmd_Flags [''qcow2''] osStdout None)
     = [BlueprintLoad [], FindDistro [] [],
        SetPulseMsgf ''Manifest generation step'',
        SetMessagef ''Building manifest for fedora-41-qcow2'',
        GetOneImage ''fedora-41'' ''qcow2'' ''x86_64''
          \<lparr>ro_DataDir = [], ro_ExtraRepos = [], ro_ForceRepos = []\<rparr>,
        GenerateManifest [] [] (sample_Result ''qcow2'' ''x86_64'') osStdout
          \<lparr>mo_OutputDir = [], mo_BlueprintPath = [], mo_Ostree = None,
           mo_RpmDownloader = RpmDownloaderLibrepo, mo_WithSBOM = False,
           mo_ForceRepos = []\<rparr>]
   \<and> \<not> occurs_before
         (GetOneImage ''fedora-41'' ''qcow2'' ''x86_64''
            \<lparr>ro_DataDir = [], ro_ExtraRepos = [], ro_ForceRepos = []\<rparr>)
         (SetPulseMsgf ''Manifest generation step'')
         (snd (cmdManifestWrapper sample_env (ProgressBar []) buildCmd_Flags [''qcow2'']
                 osStdout None))
   \<and> \<not> occurs_before
         (GetOneImage ''fedora-41'' ''qcow2'' ''x86_64''
            \<lparr>ro_DataDir = [], ro_ExtraRepos = [], ro_ForceRepos = []\<rparr>)
         (SetMessagef ''Building manifest for fedora-41-qcow2'')
         (snd (cmdManifestWrapper sample_env (ProgressBar []) buildCmd_Flags [''qcow2'']
                 osStdout None))"
  by (simp add: run_wrapper_qcow2 sample_defs occurs_before_def)

text \<open>
  C4, amended: within the manifest stage, the progress pulse "Manifest generation step" and
  the detail message naming the distro and the image type are reported strictly before the
  image is resolved with that distro and image type.
\<close>

theorem pulse_before_resolution:
  assumes "GetOneImage d t a ro \<in> set (snd (cmdManifestWrapper env pbar cmd args w chk))"
  shows "filter is_resolution_step (snd (cmdManifestWrapper env pbar cmd args w chk))
           = [SetPulseMsgf ''Manifest generation step'',
              SetMessagef (''Building manifest for '' @ d @ ''-'' @ t),
              GetOneImage d t a ro]"
proof -
  obtain r tr where run: "cmdManifestWrapper env pbar cmd args w chk = (r, tr)"
    by (cases "cmdManifestWrapper env pbar cmd args w chk")
  from cmdManifestWrapper_cases [OF run] assms show ?thesis
    unfolding run snd_conv by auto
qed

theorem pulse_before_resolution_witness:
  "GetOneImage ''fedora-41'' ''qcow2'' ''x86_64''
      \<lparr>ro_DataDir = [], ro_ExtraRepos = [], ro_ForceRepos = []\<rparr>
     \<in> set (snd (cmdManifestWrapper sample_env (ProgressBar []) buildCmd_Flags [''qcow2'']
                   osStdout None))
   \<and> filter is_resolution_step
       (snd (cmdManifestWrapper sample_env (ProgressBar []) buildCmd_Flags [''qcow2'']
               osStdout None))
       = [SetPulseMsgf ''Manifest generation step'',
          SetMessagef (''Building manifest for '' @ ''fedora-41'' @ ''-'' @ ''qcow2''),
          GetOneImage ''fedora-41'' ''qcow2'' ''x86_64''
            \<lparr>ro_DataDir = [], ro_ExtraRepos = [], ro_ForceRepos = []\<rparr>]"
proof -
  have h: "GetOneImage ''fedora-41'' ''qcow2'' ''x86_64''
      \<lparr>ro_DataDir = [], ro_ExtraRepos = [], ro_ForceRepos = []\<rparr>
     \<in> set (snd (cmdManifestWrapper sample_env (ProgressBar []) buildCmd_Flags [''qcow2'']
                   osStdout None))"
    by (simp add: run_wrapper_qcow2 sample_defs)
  from h pulse_before_resolution [OF h] show ?thesis by blast
qed

text \<open>
  C5 (corrected). As stated the build half fails: the check compares the architecture of
  the resolved image with the host's, after the selection logic has returned an image. An
  architecture string that differs from the host's and that the selection logic does not
  resolve gives the selection error: in the sample run \<^verbatim>\<open>build qcow2 --arch riscv64\<close> the
  build returns "no such image".
\<close>

theorem arch_string_mismatch_counterexample:
  "riscv64_Flags ''arch'' = Some (FString ''riscv64'')
   \<and> ''riscv64'' \<noteq> arch_Current sample_env
   \<and> fst (cmdBuild sample_env riscv64_Flags [''qcow2'']) = Inl (ImageError ''no such image'')
   \<and> fst (cmdBuild sample_env riscv64_Flags [''qcow2''])
       \<noteq> Inl (ArchMismatch ''riscv64'' (arch_Current sample_env))"
proof -
  have "riscv64_Flags ''arch'' = Some (FString ''riscv64'')"
    by (simp add: riscv64_Flags_def)
  moreover have "''riscv64'' \<noteq> arch_Current sample_env"
    by (simp add: sample_env_simps)
  moreover have "fst (cmdBuild sample_env riscv64_Flags [''qcow2''])
       = Inl (ImageError ''no such image'')"
    by (simp add: run_riscv64)
  ultimately show ?thesis by simp
qed

text \<open>
  C5, amended: for every build invocation that reaches the selection logic with an
  architecture string \<open>a\<close> different from the host's, which the selection logic resolves
  to an image of architecture \<open>a\<close>, the build fails with the architecture-mismatch error,
  while the manifest-only invocation with the same flags and arguments never returns that
  error (only \<^verbatim>\<open>cmdBuild\<close> passes an architecture check to \<^verbatim>\<open>cmdManifestWrapper\<close>).
\<close>

theorem arch_check_only_on_build_path:
  assumes "GetOneImage d t a ro \<in> set (snd (cmdBuild env cmd args))"
      and "getOneImage env d t a ro = Inr img"
      and "Arch_Name img = a"
      and "a \<noteq> arch_Current env"
  shows "fst (cmdBuild env cmd args) = Inl (ArchMismatch a (arch_Current env))
         \<and> (\<forall>x y. fst (cmdManifest env cmd args) \<noteq> Inl (ArchMismatch x y))"
proof -
  obtain r tr where run: "cmdBuild env cmd args = (r, tr)"
    by (cases "cmdBuild env cmd args")
  from cmdBuild_cases [OF run, of "ProgressBar []"] assms
  have "r = Inl (ArchMismatch a (arch_Current env))"
    unfolding run fst_conv snd_conv
    by (elim disjE exE conjE)
       (auto simp: archChecker_def dest!: cmdManifestWrapper_cases split: if_splits)
  moreover have "fst (cmdManifest env cmd args) \<noteq> Inl (ArchMismatch x y)" for x y
    using cmdManifest_error [of env cmd args "ArchMismatch x y" "snd (cmdManifest env cmd args)"]
    by (cases "cmdManifest env cmd args") auto
  ultimately show ?thesis by (simp add: run)
qed

theorem arch_check_only_on_build_path_witness:
  "GetOneImage ''fedora-41'' ''qcow2'' ''aarch64''
      \<lparr>ro_DataDir = [], ro_ExtraRepos = [], ro_ForceRepos = []\<rparr>
     \<in> set (snd (cmdBuild sample_env aarch64_Flags [''qcow2'']))
   \<and> getOneImage sample_env ''fedora-41'' ''qcow2'' ''aarch64''
        \<lparr>ro_DataDir = [], ro_ExtraRepos = [], ro_ForceRepos = []\<rparr>
       = Inr (sample_Result ''qcow2'' ''aarch64'')
   \<and> Arch_Name (sample_Result ''qcow2'' ''aarch64'') = ''aarch64''
   \<and> ''aarch64'' \<noteq> arch_Current sample_env
   \<and> fst (cmdBuild sample_env aarch64_Flags [''qcow2''])
       = Inl (ArchMismatch ''aarch64'' (arch_Current sample_env))
   \<and> (\<forall>x y. fst (cmdManifest sample_env aarch64_Flags [''qcow2'']) \<noteq> Inl (ArchMismatch x y))
   \<and> fst (cmdManifest sample_env aarch64_Flags [''qcow2'']) = Inr ()"
proof -
  have h1: "GetOneImage ''fedora-41'' ''qcow2'' ''aarch64''
      \<lparr>ro_DataDir = [], ro_ExtraRepos = [], ro_ForceRepos = []\<rparr>
     \<in> set (snd (cmdBuild sample_env aarch64_Flags [''qcow2'']))"
    by (simp add: run_aarch64)
  have h2: "getOneImage sample_env ''fedora-41'' ''qcow2'' ''aarch64''
        \<lparr>ro_DataDir = [], ro_ExtraRepos = [], ro_ForceRepos = []\<rparr>
       = Inr (sample_Result ''qcow2'' ''aarch64'')"
    by (simp add: sample_env_simps sample_Result_def)
  have h3: "Arch_Name (sample_Result ''qcow2'' ''aarch64'') = ''aarch64''"
    by (simp add: sample_Result_def)
  have h4: "''aarch64'' \<noteq> arch_Current sample_env"
    by (simp add: sample_env_simps)
  have ok: "fst (cmdManifest sample_env aarch64_Flags [''qcow2'']) = Inr ()"
    by (simp add: run_manifest_aarch64)
  from h1 h2 h3 h4 ok arch_check_only_on_build_path [OF h1 h2 h3 h4] show ?thesis by blast
qed


text \<open>
  C6 (confirmed). When \<^verbatim>\<open>--output-dir\<close> is unset (the empty string), the output directory
  in the options of every call of the build engine is \<^verbatim>\<open>distro-imageType-arch\<close>, built
  from the names of the image the call is made for, and that image is the one the
  selection logic resolved in this invocation.
\<close>

theorem default_output_directory:
  assumes "cmd ''output-dir'' = Some (FString [])"
      and "BuildImage img mf bo \<in> set (snd (cmdBuild env cmd args))"
  shows "bo_OutputDir bo = Distro_Name img @ ''-'' @ ImgType_Name img @ ''-'' @ Arch_Name img
         \<and> (\<exists>d t a ro. GetOneImage d t a ro \<in> set (snd (cmdBuild env cmd args))
                        \<and> getOneImage env d t a ro = Inr img)"
proof -
  obtain r tr where run: "cmdBuild env cmd args = (r, tr)"
    by (cases "cmdBuild env cmd args")
  from cmdBuild_cases [OF run, of "ProgressBar []"] assms show ?thesis
    unfolding run fst_conv snd_conv
    by (elim disjE exE conjE)
       (auto simp: build_options_def outputNameFor_def
             dest: cmdManifestWrapper_events dest!: cmdManifestWrapper_ok)
qed

theorem default_output_directory_witness:
  "buildCmd_Flags ''output-dir'' = Some (FString [])
   \<and> BuildImage (sample_Result ''qcow2'' ''x86_64'') ''{}''
        (sample_buildOptions ''fedora-41-qcow2-x86_64'')
       \<in> set (snd (cmdBuild sample_env buildCmd_Flags [''qcow2'']))
   \<and> bo_OutputDir (sample_buildOptions ''fedora-41-qcow2-x86_64'')
       = Distro_Name (sample_Result ''qcow2'' ''x86_64'') @ ''-'' @
         ImgType_Name (sample_Result ''qcow2'' ''x86_64'') @ ''-'' @
         Arch_Name (sample_Result ''qcow2'' ''x86_64'')
   \<and> (\<exists>d t a ro. GetOneImage d t a ro \<in> set (snd (cmdBuild sample_env buildCmd_Flags [''qcow2'']))
          \<and> getOneImage sample_env d t a ro = Inr (sample_Result ''qcow2'' ''x86_64''))"
proof -
  have h1: "buildCmd_Flags ''output-dir'' = Some (FString [])"
    by (simp add: buildCmd_Flags_def)
  have h2: "BuildImage (sample_Result ''qcow2'' ''x86_64'') ''{}''
        (sample_buildOptions ''fedora-41-qcow2-x86_64'')
       \<in> set (snd (cmdBuild sample_env buildCmd_Flags [''qcow2'']))"
    by (simp add: run_default_qcow2)
  from h1 h2 default_output_directory [OF h1 h2] show ?thesis by blast
qed

text \<open>
  C7 (confirmed, against the resolver of the specification). When no upload-related flag is
  set, that is, no field of the upload target, then whatever the image type, the
  arguments and the other collaborators: the upload client is never called, neither for
  the access check nor for the transfer; the invocation returns what the pipeline without
  upload returns and makes the same calls; and the outcome of every call of the build
  engine is the outcome of the invocation.
\<close>

theorem no_upload_without_upload_flags:
  assumes "uploaderFor env = uploaderFor_spec tg"
      and "no_upload_flags tg cmd"
  shows "UploadAccessCheck \<notin> set (phases (snd (cmdBuild env cmd args)))
         \<and> DataTransfer \<notin> set (phases (snd (cmdBuild env cmd args)))
         \<and> cmdBuild env cmd args = cmdBuild_without_upload env cmd args
         \<and> (\<forall>res mf bo. BuildImage res mf bo \<in> set (snd (cmdBuild env cmd args)) \<longrightarrow>
               fst (cmdBuild env cmd args)
                 = (case buildImage env res mf bo of
                      None \<Rightarrow> Inr () | Some m \<Rightarrow> Inl (BuildError m)))"
proof -
  from assms have nr: "\<forall>t. upload_not_requested (uploaderFor env cmd t)"
    by (simp add: uploaderFor_spec_no_flags)
  from cmdBuild_not_requested_run [OF nr, of args] cmdBuild_not_requested [OF nr, of args]
  show ?thesis by simp
qed

theorem no_upload_without_upload_flags_witness:
  "uploaderFor sample_env = uploaderFor_spec aws_target
   \<and> no_upload_flags aws_target buildCmd_Flags
   \<and> UploadAccessCheck \<notin> set (phases (snd (cmdBuild sample_env buildCmd_Flags [''qcow2''])))
   \<and> DataTransfer \<notin> set (phases (snd (cmdBuild sample_env buildCmd_Flags [''qcow2''])))
   \<and> cmdBuild sample_env buildCmd_Flags [''qcow2'']
       = cmdBuild_without_upload sample_env buildCmd_Flags [''qcow2'']
   \<and> BuildImage (sample_Result ''qcow2'' ''x86_64'') ''{}''
        (sample_buildOptions ''fedora-41-qcow2-x86_64'')
       \<in> set (snd (cmdBuild sample_env buildCmd_Flags [''qcow2'']))
   \<and> fst (cmdBuild sample_env buildCmd_Flags [''qcow2''])
       = (case buildImage sample_env (sample_Result ''qcow2'' ''x86_64'') ''{}''
                 (sample_buildOptions ''fedora-41-qcow2-x86_64'') of
            None \<Rightarrow> Inr () | Some m \<Rightarrow> Inl (BuildError m))"
proof -
  have h1: "uploaderFor sample_env = uploaderFor_spec aws_target"
    by (simp add: sample_env_simps)
  have h2: "no_upload_flags aws_target buildCmd_Flags"
    by (simp add: no_upload_flags_def aws_target_def field_set_def buildCmd_Flags_def)
  have called: "BuildImage (sample_Result ''qcow2'' ''x86_64'') ''{}''
        (sample_buildOptions ''fedora-41-qcow2-x86_64'')
       \<in> set (snd (cmdBuild sample_env buildCmd_Flags [''qcow2'']))"
    by (simp add: run_default_qcow2)
  from h1 h2 called no_upload_without_upload_flags [OF h1 h2, of "[''qcow2'']"]
  show ?thesis by blast
qed

text \<open>
  C8 (confirmed). In every build invocation the transfer is called at most once, and every
  call of the transfer comes after a call of the build engine that returned success; a
  manifest-only invocation never calls it.
\<close>

theorem at_most_one_upload_after_build:
  "length (filter (\<lambda>e. phase_of e = Some DataTransfer) (snd (cmdBuild env cmd args))) \<le> 1
   \<and> (\<forall>pre u p post. snd (cmdBuild env cmd args) = pre @ UploadImage u p # post \<longrightarrow>
         (\<exists>img mf bo. BuildImage img mf bo \<in> set pre \<and> buildImage env img mf bo = None))
   \<and> DataTransfer \<notin> set (phases (snd (cmdManifest env cmd args)))"
proof -
  obtain r tr where run: "cmdBuild env cmd args = (r, tr)"
    by (cases "cmdBuild env cmd args")
  have quiet: "filter (\<lambda>e. phase_of e = Some DataTransfer) wtr = []"
    if "cmdManifestWrapper env pbar cmd args w chk = (x, wtr)" for pbar w chk x wtr
    using cmdManifestWrapper_cases [OF that] by auto
  have count: "length (filter (\<lambda>e. phase_of e = Some DataTransfer) tr) \<le> 1"
    using cmdBuild_cases [OF run, of "ProgressBar []"]
    by (elim disjE exE conjE) (auto dest!: quiet)
  have after: "\<exists>img mf bo. BuildImage img mf bo \<in> set pre \<and> buildImage env img mf bo = None"
    if split: "tr = pre @ UploadImage u p # post" for pre u p post
  proof -
    have mem: "UploadImage u p \<in> set tr"
      by (simp add: split)
    from cmdBuild_cases [OF run, of "ProgressBar []"] mem
    obtain k res mf wtr up bo path where
      wrapper: "cmdManifestWrapper env (ProgressBar []) cmd args Buffer (Some (archChecker env))
                  = (Inr (res, mf), wtr)"
      and built: "buildImage env res mf bo = None"
      and tr: "tr = (ProgressNew k # PbarStart # wtr @
                 [UploaderFor (ImgType_Name res), SetPulseMsgf ''Checking cloud access'',
                  UploaderCheck up, SetPulseMsgf ''Image building step'',
                  BuildImage res mf bo, PbarStop]) @ UploadImage up path # [PbarStop]"
      by (elim disjE exE conjE) (auto dest: cmdManifestWrapper_events)
    from mem tr cmdManifestWrapper_events(4) [OF wrapper]
    have same: "UploadImage u p = UploadImage up path"
      by auto
    have "UploadImage up path \<notin> set (ProgressNew k # PbarStart # wtr @
                 [UploaderFor (ImgType_Name res), SetPulseMsgf ''Checking cloud access'',
                  UploaderCheck up, SetPulseMsgf ''Image building step'',
                  BuildImage res mf bo, PbarStop])"
      using cmdManifestWrapper_events(4) [OF wrapper] by simp
    from first_occurrence_prefix [OF _ this, of "[PbarStop]" pre post] tr split same
    obtain pre' where "pre = (ProgressNew k # PbarStart # wtr @
                 [UploaderFor (ImgType_Name res), SetPulseMsgf ''Checking cloud access'',
                  UploaderCheck up, SetPulseMsgf ''Image building step'',
                  BuildImage res mf bo, PbarStop]) @ pre'"
      by auto
    then have "BuildImage res mf bo \<in> set pre"
      by simp
    with built show ?thesis by blast
  qed
  from count after cmdManifest_phases [of env cmd args] show ?thesis
    unfolding run snd_conv by blast
qed

theorem at_most_one_upload_after_build_witness:
  "length (filter (\<lambda>e. phase_of e = Some DataTransfer)
             (snd (cmdBuild sample_env upload_Flags [''ami'']))) \<le> 1
   \<and> snd (cmdBuild sample_env upload_Flags [''ami''])
       = ([ProgressNew ''auto'', PbarStart] @ sample_manifest_events ''ami'' ''x86_64'' Buffer @
          [UploaderFor ''ami'', SetPulseMsgf ''Checking cloud access'',
           UploaderCheck (Uploader ''aws''), SetPulseMsgf ''Image building step'',
           BuildImage (sample_Result ''ami'' ''x86_64'') ''{}''
             (sample_buildOptions ''fedora-41-ami-x86_64''),
           PbarStop])
         @ UploadImage (Uploader ''aws'') ''fedora-41-ami-x86_64/ami/image.raw'' # [PbarStop]
   \<and> (\<exists>img mf bo.
          BuildImage img mf bo
            \<in> set ([ProgressNew ''auto'', PbarStart] @
                    sample_manifest_events ''ami'' ''x86_64'' Buffer @
                    [UploaderFor ''ami'', SetPulseMsgf ''Checking cloud access'',
                     UploaderCheck (Uploader ''aws''), SetPulseMsgf ''Image building step'',
                     BuildImage (sample_Result ''ami'' ''x86_64'') ''{}''
                       (sample_buildOptions ''fedora-41-ami-x86_64''),
                     PbarStop])
          \<and> buildImage sample_env img mf bo = None)
   \<and> DataTransfer \<notin> set (phases (snd (cmdManifest sample_env upload_Flags [''ami''])))"
proof -
  have h: "snd (cmdBuild sample_env upload_Flags [''ami''])
       = ([ProgressNew ''auto'', PbarStart] @ sample_manifest_events ''ami'' ''x86_64'' Buffer @
          [UploaderFor ''ami'', SetPulseMsgf ''Checking cloud access'',
           UploaderCheck (Uploader ''aws''), SetPulseMsgf ''Image building step'',
           BuildImage (sample_Result ''ami'' ''x86_64'') ''{}''
             (sample_buildOptions ''fedora-41-ami-x86_64''),
           PbarStop])
         @ UploadImage (Uploader ''aws'') ''fedora-41-ami-x86_64/ami/image.raw'' # [PbarStop]"
    by (simp add: run_upload)
  from h at_most_one_upload_after_build [of sample_env upload_Flags "[''ami'']"]
  show ?thesis by blast
qed



text \<open>
  C10 (confirmed). With \<^verbatim>\<open>--progress\<close> equal to \<open>p\<close> and \<^verbatim>\<open>--verbose\<close> equal to \<open>v\<close>,
  \<^verbatim>\<open>progressFromCmd\<close> calls \<^verbatim>\<open>progress.New\<close> once, with the kind "verbose" if \<open>p\<close> is "auto"
  and \<open>v\<close> is set and with \<open>p\<close> otherwise, and returns what it returns; a build
  invocation creates no progress reporter of another kind.
\<close>

theorem progress_kind_from_flags:
  assumes "cmd ''progress'' = Some (FString p)"
      and "cmd ''verbose'' = Some (FBool v)"
  shows "progressFromCmd env cmd
           = (case progress_New env (if p = ''auto'' \<and> v then ''verbose'' else p) of
                Inl m \<Rightarrow> Inl (ProgressError m) | Inr pbar \<Rightarrow> Inr pbar,
              [ProgressNew (if p = ''auto'' \<and> v then ''verbose'' else p)])
         \<and> (\<forall>k. ProgressNew k \<in> set (snd (cmdBuild env cmd args)) \<longrightarrow>
                k = (if p = ''auto'' \<and> v then ''verbose'' else p))"
proof -
  have "progressFromCmd env cmd
           = (case progress_New env (if p = ''auto'' \<and> v then ''verbose'' else p) of
                Inl m \<Rightarrow> Inl (ProgressError m) | Inr pbar \<Rightarrow> Inr pbar,
              [ProgressNew (if p = ''auto'' \<and> v then ''verbose'' else p)])"
    using assms
    by (simp add: progressFromCmd_def GetString_def GetBool_def bindM_returnM
          bindM_def emitM_def liftE_def returnM_def failM_def split: sum.splits)
  moreover have "k = (if p = ''auto'' \<and> v then ''verbose'' else p)"
    if "ProgressNew k \<in> set (snd (cmdBuild env cmd args))" for k
  proof -
    obtain r tr where run: "cmdBuild env cmd args = (r, tr)"
      by (cases "cmdBuild env cmd args")
    from cmdBuild_cases [OF run, of "ProgressBar []"] that assms show ?thesis
      unfolding run snd_conv
      by (elim disjE exE conjE)
         (auto simp: progress_kind_def dest: cmdManifestWrapper_events)
  qed
  ultimately show ?thesis by blast
qed

theorem progress_kind_from_flags_witness:
  "verbose_Flags ''progress'' = Some (FString ''auto'')
   \<and> verbose_Flags ''verbose'' = Some (FBool True)
   \<and> progressFromCmd sample_env verbose_Flags
       = (case progress_New sample_env
                 (if ''auto'' = ''auto'' \<and> True then ''verbose'' else ''auto'') of
            Inl m \<Rightarrow> Inl (ProgressError m) | Inr pbar \<Rightarrow> Inr pbar,
          [ProgressNew (if ''auto'' = ''auto'' \<and> True then ''verbose'' else ''auto'')])
   \<and> ProgressNew ''verbose'' \<in> set (snd (cmdBuild sample_env verbose_Flags [''qcow2'']))
   \<and> ''verbose'' = (if ''auto'' = ''auto'' \<and> True then ''verbose'' else ''auto'')"
proof -
  have h1: "verbose_Flags ''progress'' = Some (FString ''auto'')"
    by (simp add: verbose_Flags_def buildCmd_Flags_def)
  have h2: "verbose_Flags ''verbose'' = Some (FBool True)"
    by (simp add: verbose_Flags_def)
  have created: "ProgressNew ''verbose''
      \<in> set (snd (cmdBuild sample_env verbose_Flags [''qcow2'']))"
    by (simp add: run_verbose_qcow2)
  from h1 h2 created progress_kind_from_flags [OF h1 h2, of sample_env "[''qcow2'']"]
  show ?thesis by blast
qed

end
